theory Spec2Isabelle
  imports Complex_Main "HOL-Library.Word"
begin

unbundle bit_operations_syntax

section \<open>Data model of the SoC hint daemon\<close>

text \<open>
  The embedding follows \<^verbatim>\<open>SocDaemon.{h,cpp}\<close>, \<^verbatim>\<open>SysLoadMonitor.{h,cpp}\<close>,
  \<^verbatim>\<open>GpuRc6Monitor.{h,cpp}\<close> and \<^verbatim>\<open>WltMonitor.cpp\<close>.  Conventions:
  \<^item> a C++ member \<^verbatim>\<open>foo_\<close> is the record field \<open>foo\<close> (a trailing underscore is not
    a legal name in a term);
  \<^item> \<^verbatim>\<open>int\<close> is \<open>32 word\<close>, \<^verbatim>\<open>unsigned long long\<close> is \<open>64 word\<close>;
  \<^item> \<^verbatim>\<open>double\<close> is idealised as \<open>real\<close>: rounding is not modelled;
  \<^item> a nullable non-owning pointer is an \<open>option\<close> holding the state of the object it
    points to;
  \<^item> what the environment supplies (the content of \<^verbatim>\<open>/proc/stat\<close>, the steady clock,
    the result of \<^verbatim>\<open>pthread_create\<close>, the bytes read from sysfs) is an explicit input;
  \<^item> every handler body is one atomic step on the state; the interleaving of the
    monitor threads with the debounce thread is not modelled;
  \<^item> the calls \<^verbatim>\<open>hintManager.sendHint(name, value)\<close> are recorded, in order, in the
    field \<open>sink\<close>.  The \<^verbatim>\<open>ALOG*\<close> lines of the coordinator are not modelled (so the
    \<^verbatim>\<open>reason\<close> argument of the two hint senders, which is only logged, is dropped);
    the error lines of the two sysfs monitors are.
\<close>

type_synonym c_int = "32 word"
type_synonym u64 = "64 word"

datatype CCGlobalState = Open | CoreContainment

datatype WltType = Idle | Btl | Sustain | Bursty

record SystemLoadSample =
  totalTime :: u64
  idleTime :: u64

text \<open>The members of \<^verbatim>\<open>class SysLoadMonitor\<close> that the sampling path reads or writes.\<close>

record SysLoadMonitor =
  samplerRunning :: bool
  samplerPaused :: bool
  lastSample :: SystemLoadSample
  currentSample :: SystemLoadSample

text \<open>The file-scope statics \<^verbatim>\<open>g_cpuEmaValue\<close>, \<^verbatim>\<open>g_cpuEmaValuePrev\<close>, \<^verbatim>\<open>g_cpuEmaLastTs\<close>
  of \<^verbatim>\<open>SysLoadMonitor.cpp\<close>; the time point is in seconds.\<close>

record EmaState =
  g_cpuEmaValue :: real
  g_cpuEmaValuePrev :: real
  g_cpuEmaLastTs :: real

record GpuRc6Monitor =
  paused :: bool
  shouldExit :: bool

text \<open>
  Modelled from the spec: the declarations of the members \<^verbatim>\<open>sendGfxHint_\<close> and \<^verbatim>\<open>gfxMode_\<close>,
  which \<^verbatim>\<open>SocDaemon.cpp\<close> uses and \<^verbatim>\<open>SocDaemon.h\<close> lacks.  Following the spec's
  \<^verbatim>\<open>HintState {efficient: bool, gfx: bool}\<close> and the declared \<^verbatim>\<open>bool efficientMode_\<close>, both
  are \<open>bool\<close>.  Every other field of the record is a member declared in \<^verbatim>\<open>class SocDaemon\<close>:
  \<open>ccExitDebounceMs\<close> is in milliseconds; the member \<^verbatim>\<open>ccEntryDebounceStartTime_\<close>, which
  \<^verbatim>\<open>startCCEntryDebounceTimer\<close> writes and nothing reads, is left out; \<open>ema\<close> holds the
  statics of the estimator and \<open>sink\<close> the calls made on \<^verbatim>\<open>hintManager\<close>.
\<close>

record SocDaemon =
  sendHint :: bool
  sendGfxHint :: bool
  socHint :: string
  efficientMode :: bool
  gfxMode :: bool
  CCGlobalState :: CCGlobalState
  debounceThreadStarted :: bool
  ccEntryDebounceActive :: bool
  ccEntryDebounceCancelled :: bool
  ccExitDebounceActive :: bool
  ccExitDebounceCancelled :: bool
  ccExitDebounceMs :: nat
  latestSysCpuLoadCC :: real
  sysLoadMonitorPtr :: "SysLoadMonitor option"
  gpuRc6MonitorPtr :: "GpuRc6Monitor option"
  gpuMonitorThreadRunning :: bool
  ema :: EmaState
  sink :: "(string \<times> bool) list"

text \<open>What the environment supplies to one handler run: the numeric fields of the first
  line of \<^verbatim>\<open>/proc/stat\<close> after the label \<^verbatim>\<open>cpu\<close> (\<open>None\<close> when the file cannot be opened or
  read, or the label is not \<^verbatim>\<open>cpu\<close>), the reading of the steady clock in seconds, and
  whether \<^verbatim>\<open>pthread_create\<close> succeeds.\<close>

record env =
  procStat :: "u64 list option"
  clockNow :: real
  threadCreateOk :: bool

section \<open>CPU-load estimator\<close>

definition kCpuEmaTimeConstantSec :: real where
  "kCpuEmaTimeConstantSec = 1.5"

text \<open>\<^verbatim>\<open>applyEmaIrregularSample(rawPercent)\<close> at clock reading \<open>now\<close>: the returned value and
  the new statics.\<close>

definition applyEmaIrregularSample :: "real \<Rightarrow> real \<Rightarrow> EmaState \<Rightarrow> real \<times> EmaState" where
  "applyEmaIrregularSample now rawPercent g =
     (let dt0 = now - g_cpuEmaLastTs g;
          dt = (if dt0 < 0 then 0 else dt0)
      in if rawPercent < 0 then
           ((if g_cpuEmaValue g \<ge> 0 then g_cpuEmaValue g else -1),
            g\<lparr>g_cpuEmaLastTs := now\<rparr>)
         else if g_cpuEmaValue g < 0 then
           (rawPercent, g\<lparr>g_cpuEmaValue := rawPercent, g_cpuEmaLastTs := now\<rparr>)
         else
           (let alpha0 = 1 - exp (- dt / kCpuEmaTimeConstantSec);
                alpha1 = (if alpha0 < 0 then 0 else alpha0);
                alpha = (if alpha1 > 1 then 1 else alpha1);
                v = g_cpuEmaValue g * (1 - alpha) + rawPercent * alpha
            in (v, g\<lparr>g_cpuEmaValuePrev := g_cpuEmaValue g,
                      g_cpuEmaValue := v,
                      g_cpuEmaLastTs := now\<rparr>)))"

text \<open>The \<^verbatim>\<open>while (iss >> value)\<close> loop of \<^verbatim>\<open>SysLoadMonitor::getSysCpuLoad\<close>: the running
  field index, total and idle sum (unsigned 64-bit, wrapping).\<close>

fun sumStatFields :: "u64 list \<Rightarrow> nat \<Rightarrow> u64 \<Rightarrow> u64 \<Rightarrow> u64 \<times> u64" where
  "sumStatFields [] fieldIndex tot idl = (tot, idl)"
| "sumStatFields (v # vs) fieldIndex tot idl =
     sumStatFields vs (Suc fieldIndex) (tot + v)
       (if fieldIndex = 3 \<or> fieldIndex = 4 then idl + v else idl)"

text \<open>\<^verbatim>\<open>SysLoadMonitor::getSysCpuLoad()\<close>: the returned EMA, the monitor and the statics.\<close>

definition SysLoadMonitor_getSysCpuLoad ::
  "u64 list option \<Rightarrow> real \<Rightarrow> SysLoadMonitor \<Rightarrow> EmaState \<Rightarrow> real \<times> SysLoadMonitor \<times> EmaState" where
  "SysLoadMonitor_getSysCpuLoad stat now m g =
     (case stat of
        None \<Rightarrow> (let (r, g') = applyEmaIrregularSample now (-1) g in (r, m, g'))
      | Some vals \<Rightarrow>
         (let (tot, idl) = sumStatFields vals 0 0 0;
              prv = currentSample m;
              cur = \<lparr>totalTime = tot, idleTime = idl\<rparr>;
              m' = m\<lparr>lastSample := prv, currentSample := cur\<rparr>;
              deltaTotal = (if totalTime cur \<ge> totalTime prv then totalTime cur - totalTime prv else 0);
              deltaIdle = (if idleTime cur \<ge> idleTime prv then idleTime cur - idleTime prv else 0);
              rawUtil = (if deltaTotal > 0 then
                           (let busy = (if deltaTotal > deltaIdle then deltaTotal - deltaIdle else 0)
                            in real (unat busy) * 100 / real (unat deltaTotal))
                         else -1);
              (r, g') = applyEmaIrregularSample now rawUtil g
          in (r, m', g')))"

text \<open>\<^verbatim>\<open>SysLoadMonitor::getLatestSysCpuLoad()\<close>.\<close>

definition SysLoadMonitor_getLatestSysCpuLoad :: "EmaState \<Rightarrow> real" where
  "SysLoadMonitor_getLatestSysCpuLoad g = g_cpuEmaValue g"

text \<open>\<^verbatim>\<open>SysLoadMonitor::pause()\<close> and \<^verbatim>\<open>SysLoadMonitor::restart()\<close>.\<close>

definition SysLoadMonitor_pause :: "SysLoadMonitor \<Rightarrow> SysLoadMonitor" where
  "SysLoadMonitor_pause m = m\<lparr>samplerPaused := True\<rparr>"

definition SysLoadMonitor_restart :: "SysLoadMonitor \<Rightarrow> SysLoadMonitor" where
  "SysLoadMonitor_restart m = m\<lparr>samplerPaused := False\<rparr>"

section \<open>GPU monitor pause control\<close>

definition GpuRc6Monitor_pause :: "GpuRc6Monitor \<Rightarrow> GpuRc6Monitor" where
  "GpuRc6Monitor_pause g = g\<lparr>paused := True\<rparr>"

definition GpuRc6Monitor_resume :: "GpuRc6Monitor \<Rightarrow> GpuRc6Monitor" where
  "GpuRc6Monitor_resume g = g\<lparr>paused := False\<rparr>"

section \<open>Coordinator: hint gating\<close>

text \<open>\<^verbatim>\<open>HintManager::sendHint(type, enable)\<close> as seen from the coordinator: the call is
  recorded.\<close>

definition hintManager_sendHint :: "string \<Rightarrow> bool \<Rightarrow> SocDaemon \<Rightarrow> SocDaemon" where
  "hintManager_sendHint type enable d = d\<lparr>sink := sink d @ [(type, enable)]\<rparr>"

text \<open>\<^verbatim>\<open>SocDaemon::sendHintIfAllowed(value, reason)\<close>.  \<^verbatim>\<open>value != efficientMode_\<close> promotes
  the \<^verbatim>\<open>bool\<close> to 0 or 1; storing \<^verbatim>\<open>value\<close> in a \<^verbatim>\<open>bool\<close> (the member, and the
  \<^verbatim>\<open>const bool&\<close> parameter of \<^verbatim>\<open>sendHint\<close>) keeps whether it is non-zero.\<close>

definition sendHintIfAllowed :: "c_int \<Rightarrow> SocDaemon \<Rightarrow> SocDaemon" where
  "sendHintIfAllowed v d =
     (if v \<noteq> (if efficientMode d then 1 else 0) then
        (let d1 = (if sendHint d then hintManager_sendHint ''EFFICIENT_POWER'' (v \<noteq> 0) d else d);
             d2 = d1\<lparr>efficientMode := (v \<noteq> 0)\<rparr>
         in if efficientMode d2
            then d2\<lparr>sysLoadMonitorPtr := map_option SysLoadMonitor_restart (sysLoadMonitorPtr d2)\<rparr>
            else d2\<lparr>sysLoadMonitorPtr := map_option SysLoadMonitor_pause (sysLoadMonitorPtr d2)\<rparr>)
      else d)"

text \<open>\<^verbatim>\<open>SocDaemon::sendGfxHintIfAllowed(value, reason)\<close>.\<close>

definition sendGfxHintIfAllowed :: "c_int \<Rightarrow> SocDaemon \<Rightarrow> SocDaemon" where
  "sendGfxHintIfAllowed v d =
     (if v \<noteq> (if gfxMode d then 1 else 0) then
        (let d1 = (if sendGfxHint d then hintManager_sendHint ''GFX_MODE'' (v \<noteq> 0) d else d)
         in d1\<lparr>gfxMode := (v \<noteq> 0)\<rparr>)
      else d)"





section \<open>Coordinator: debounce timers\<close>

definition kCCEntryDebounceMs :: nat where
  "kCCEntryDebounceMs = 10000"

definition kSysloadSlopeThreshold :: real where
  "kSysloadSlopeThreshold = 5.0"

definition startCCEntryDebounceTimer :: "SocDaemon \<Rightarrow> SocDaemon" where
  "startCCEntryDebounceTimer d =
     d\<lparr>ccEntryDebounceActive := True, ccEntryDebounceCancelled := False,
       debounceThreadStarted := True\<rparr>"

definition stopCCEntryDebounceTimer :: "SocDaemon \<Rightarrow> SocDaemon" where
  "stopCCEntryDebounceTimer d =
     d\<lparr>ccEntryDebounceActive := False, ccEntryDebounceCancelled := True\<rparr>"

definition isCCEntryDebounceTimerRunning :: "SocDaemon \<Rightarrow> bool" where
  "isCCEntryDebounceTimerRunning d = ccEntryDebounceActive d"

text \<open>\<^verbatim>\<open>startCCExitDebounceTimer(timeout)\<close>; the header's default argument is 1000 ms.\<close>

definition startCCExitDebounceTimer :: "nat \<Rightarrow> SocDaemon \<Rightarrow> SocDaemon" where
  "startCCExitDebounceTimer timeout d =
     d\<lparr>ccExitDebounceActive := True, ccExitDebounceCancelled := False,
       debounceThreadStarted := True, ccExitDebounceMs := timeout\<rparr>"

definition stopCCExitDebounceTimer :: "SocDaemon \<Rightarrow> SocDaemon" where
  "stopCCExitDebounceTimer d =
     d\<lparr>ccExitDebounceActive := False, ccExitDebounceCancelled := True\<rparr>"

definition isCCExitDebounceTimerRunning :: "SocDaemon \<Rightarrow> bool" where
  "isCCExitDebounceTimerRunning d = ccExitDebounceActive d"

section \<open>Coordinator: access to the CPU-load estimator\<close>

text \<open>\<^verbatim>\<open>SocDaemon::getSysCpuLoad()\<close>: one sample through the non-owning pointer, or -1.0.\<close>

definition getSysCpuLoad :: "env \<Rightarrow> SocDaemon \<Rightarrow> real \<times> SocDaemon" where
  "getSysCpuLoad e d =
     (case sysLoadMonitorPtr d of
        None \<Rightarrow> (-1, d)
      | Some m \<Rightarrow>
          (let (r, m', g') = SysLoadMonitor_getSysCpuLoad (procStat e) (clockNow e) m (ema d)
           in (r, d\<lparr>sysLoadMonitorPtr := Some m', ema := g'\<rparr>)))"

definition getLatestSysCpuLoad :: "SocDaemon \<Rightarrow> real" where
  "getLatestSysCpuLoad d =
     (case sysLoadMonitorPtr d of
        None \<Rightarrow> -1
      | Some m \<Rightarrow> SysLoadMonitor_getLatestSysCpuLoad (ema d))"

section \<open>Coordinator: the change-alert handler\<close>

text \<open>\<^verbatim>\<open>static_cast<WltType>(value & 0x3)\<close>.  The masked value is one of 0..3, so the last
  branch is the enumerator 3 and the \<^verbatim>\<open>default\<close> labels of the two switches are dead.\<close>

definition toWltType :: "c_int \<Rightarrow> WltType" where
  "toWltType v =
     (let c = v AND 3
      in if c = 0 then Idle else if c = 1 then Btl else if c = 2 then Sustain else Bursty)"

text \<open>The guarded calls \<^verbatim>\<open>if (gpuMonitorThreadRunning_ && gpuRc6MonitorPtr_) gpuRc6MonitorPtr_->pause()\<close>
  and \<^verbatim>\<open>... ->resume()\<close>.\<close>

definition gpuPauseIfRunning :: "SocDaemon \<Rightarrow> SocDaemon" where
  "gpuPauseIfRunning d =
     (if gpuMonitorThreadRunning d \<and> gpuRc6MonitorPtr d \<noteq> None
      then d\<lparr>gpuRc6MonitorPtr := map_option GpuRc6Monitor_pause (gpuRc6MonitorPtr d)\<rparr>
      else d)"

definition gpuResumeIfRunning :: "SocDaemon \<Rightarrow> SocDaemon" where
  "gpuResumeIfRunning d =
     (if gpuMonitorThreadRunning d \<and> gpuRc6MonitorPtr d \<noteq> None
      then d\<lparr>gpuRc6MonitorPtr := map_option GpuRc6Monitor_resume (gpuRc6MonitorPtr d)\<rparr>
      else d)"

text \<open>The branch \<^verbatim>\<open>CCGlobalState_ == CoreContainment\<close> of the \<^verbatim>\<open>"wlt"\<close> policy
  (\<^verbatim>\<open>SocDaemon.cpp\<close>, lines 286 to 343).\<close>

definition wltInContainment :: "env \<Rightarrow> WltType \<Rightarrow> WltType \<Rightarrow> SocDaemon \<Rightarrow> SocDaemon" where
  "wltInContainment e oldWLT newWLT d =
     (let d1 =
        (if (oldWLT = Idle \<or> oldWLT = Btl) \<and> (newWLT = Sustain \<or> newWLT = Bursty) then
           (let a = d\<lparr>latestSysCpuLoadCC := getLatestSysCpuLoad d\<rparr>
            in if \<not> gpuMonitorThreadRunning a \<and> gpuRc6MonitorPtr a \<noteq> None then
                 (if threadCreateOk e
                  then a\<lparr>gpuMonitorThreadRunning := True,
                         gpuRc6MonitorPtr := map_option GpuRc6Monitor_resume (gpuRc6MonitorPtr a)\<rparr>
                  else a)
               else if gpuMonitorThreadRunning a \<and> gpuRc6MonitorPtr a \<noteq> None then
                 a\<lparr>gpuRc6MonitorPtr := map_option GpuRc6Monitor_resume (gpuRc6MonitorPtr a)\<rparr>
               else a)
         else d);
          d2 = snd (getSysCpuLoad e d1)
      in if newWLT = Idle \<or> newWLT = Btl then
           (let a = gpuPauseIfRunning d2
            in if isCCExitDebounceTimerRunning a then stopCCExitDebounceTimer a else a)
         else
           (let a = (if \<not> isCCExitDebounceTimerRunning d2
                     then startCCExitDebounceTimer 1000 d2 else d2)
            in gpuResumeIfRunning a))"

text \<open>The branch "not in CoreContainment" (lines 345 to 381).\<close>

definition wltInOpen :: "WltType \<Rightarrow> SocDaemon \<Rightarrow> SocDaemon" where
  "wltInOpen newWLT d =
     (if newWLT = Idle \<or> newWLT = Btl then
        (let a = (if CCGlobalState d = Open \<and> \<not> isCCEntryDebounceTimerRunning d
                  then startCCEntryDebounceTimer d else d)
         in gpuPauseIfRunning a)
      else if newWLT = Sustain then
        (let a = (if isCCEntryDebounceTimerRunning d then stopCCEntryDebounceTimer d else d)
         in gpuResumeIfRunning a)
      else d)"

text \<open>\<^verbatim>\<open>SocDaemon::handleChangeAlert(name, oldValue, newValue)\<close>: four independent tests of
  the monitor name, in the order of the source.  \<^verbatim>\<open>CCGlobalState_.exchange(Open)\<close> stores
  \<open>Open\<close> and yields the state before.\<close>

definition handleChangeAlert :: "env \<Rightarrow> string \<Rightarrow> c_int \<Rightarrow> c_int \<Rightarrow> SocDaemon \<Rightarrow> SocDaemon" where
  "handleChangeAlert e name oldValue newValue d =
     (let d1 =
        (if name = ''WltMonitor'' then
           (if socHint d = ''wlt'' then
              (let newWLT = toWltType newValue; oldWLT = toWltType oldValue
               in if CCGlobalState d = CoreContainment
                  then wltInContainment e oldWLT newWLT d
                  else wltInOpen newWLT d)
            else if socHint d = ''swlt'' then
              (if newValue AND push_bit 4 1 = 0
               then sendHintIfAllowed 0 d
               else sendHintIfAllowed 1 d)
            else d)
         else d);
          d2 =
        (if name = ''HfiMonitor'' then
           (if newValue = 255 then sendHintIfAllowed 1 d1 else sendHintIfAllowed 0 d1)
         else d1);
          d3 =
        (if name = ''SysLoadMonitor'' then
           (let prev = CCGlobalState d2; a = d2\<lparr>CCGlobalState := Open\<rparr>
            in if prev \<noteq> CoreContainment then sendHintIfAllowed 0 a else a)
         else d2);
          d4 =
        (if name = ''GpuRc6Monitor'' then
           (if newValue = 1 then sendGfxHintIfAllowed 1 d3 else sendGfxHintIfAllowed 0 d3)
         else d3)
      in d4)"

section \<open>Coordinator: what the debounce thread does when a wait ends\<close>

text \<open>
  \<^verbatim>\<open>SocDaemon::debounceThreadFunc\<close> waits on the condition variable until the deadline of
  the active timer or until the timer's active flag is cleared.  The two functions below
  are the code that follows each wait: lines 122 to 145 for the entry timer, lines 162 to
  189 for the exit timer.  A timer has expired without being cancelled when the body runs
  with the cancelled flag clear.
\<close>

definition entryDebounceDone :: "env \<Rightarrow> SocDaemon \<Rightarrow> SocDaemon" where
  "entryDebounceDone e d =
     (let d0 = d\<lparr>ccEntryDebounceActive := False\<rparr>
      in if \<not> ccEntryDebounceCancelled d0 then
           (let (currentSysCpuLoad, d1) = getSysCpuLoad e d0
            in if currentSysCpuLoad < 25 then
                 (let prev = CCGlobalState d1; d2 = d1\<lparr>CCGlobalState := CoreContainment\<rparr>
                  in if prev \<noteq> CoreContainment then sendHintIfAllowed 1 d2 else d2)
               else d1)
         else d0\<lparr>ccEntryDebounceCancelled := False\<rparr>)"

definition exitDebounceDone :: "env \<Rightarrow> SocDaemon \<Rightarrow> SocDaemon" where
  "exitDebounceDone e d =
     (let d0 = d\<lparr>ccExitDebounceActive := False\<rparr>
      in if \<not> ccExitDebounceCancelled d0 then
           (if CCGlobalState d0 = CoreContainment then
              (let (currentSysCpuLoad, d1) = getSysCpuLoad e d0;
                   slope = currentSysCpuLoad - latestSysCpuLoadCC d1
               in if slope > kSysloadSlopeThreshold then
                    (let prev = CCGlobalState d1; d2 = d1\<lparr>CCGlobalState := Open\<rparr>
                     in if prev \<noteq> Open then sendHintIfAllowed 0 d2 else d2)
                  else startCCExitDebounceTimer 5000 d1)
            else d0)
         else d0\<lparr>ccExitDebounceCancelled := False\<rparr>)"

section \<open>Coordinator: the state when the monitor threads start\<close>

text \<open>
  The state built by the constructor and by \<^verbatim>\<open>SocDaemon::start()\<close> up to the creation of
  the monitor threads.  \<^verbatim>\<open>SysLoadMonitor::init()\<close> always succeeds and leaves the sampler
  paused; the GPU monitor is paused before its \<^verbatim>\<open>init()\<close> and is registered when that
  succeeds (\<open>gpuInitOk\<close>).  \<open>t0\<close> is the clock reading at static initialisation.
  \<open>gfx0\<close> is the initial value of \<^verbatim>\<open>gfxMode_\<close>, whose declaration is not under src/.
\<close>

definition SocDaemon_start :: "bool \<Rightarrow> bool \<Rightarrow> string \<Rightarrow> bool \<Rightarrow> bool \<Rightarrow> real \<Rightarrow> SocDaemon" where
  "SocDaemon_start sendHint0 sendGfxHint0 socHint0 gfx0 gpuInitOk t0 =
     \<lparr>sendHint = sendHint0, sendGfxHint = sendGfxHint0, socHint = socHint0,
      efficientMode = False, gfxMode = gfx0, CCGlobalState = Open,
      debounceThreadStarted = False,
      ccEntryDebounceActive = False, ccEntryDebounceCancelled = False,
      ccExitDebounceActive = False, ccExitDebounceCancelled = False,
      ccExitDebounceMs = 1000, latestSysCpuLoadCC = 0,
      sysLoadMonitorPtr =
        Some \<lparr>samplerRunning = True, samplerPaused = True,
              lastSample = \<lparr>totalTime = 0, idleTime = 0\<rparr>,
              currentSample = \<lparr>totalTime = 0, idleTime = 0\<rparr>\<rparr>,
      gpuRc6MonitorPtr =
        (if gpuInitOk then Some \<lparr>paused = True, shouldExit = False\<rparr> else None),
      gpuMonitorThreadRunning = False,
      ema = \<lparr>g_cpuEmaValue = -1, g_cpuEmaValuePrev = -1, g_cpuEmaLastTs = t0\<rparr>,
      sink = []\<rparr>"

section \<open>The sysfs monitors: one pass of the polling loop\<close>

text \<open>
  \<^verbatim>\<open>WltMonitor::monitorLoop\<close> and \<^verbatim>\<open>GpuRc6Monitor::monitorLoop\<close> keep two local strings,
  \<^verbatim>\<open>current_value\<close> and \<^verbatim>\<open>previous_value\<close> (both start empty).  One pass, once the file is
  open, reads the value, compares the strings, converts both with \<^verbatim>\<open>strtol\<close> and calls
  \<^verbatim>\<open>onValueChanged\<close>, which invokes the installed change-alert callback.
\<close>

definition isspace :: "char \<Rightarrow> bool" where
  "isspace c = (c = CHR '' '' \<or> c = CHR 0x09 \<or> c = CHR 0x0A \<or> c = CHR 0x0B
                \<or> c = CHR 0x0C \<or> c = CHR 0x0D)"

definition isdigit :: "char \<Rightarrow> bool" where
  "isdigit c = (48 \<le> (of_char c :: nat) \<and> (of_char c :: nat) \<le> 57)"

fun digitsValue :: "string \<Rightarrow> int \<Rightarrow> int" where
  "digitsValue [] acc = acc"
| "digitsValue (c # cs) acc = digitsValue cs (acc * 10 + (int (of_char c) - 48))"

definition LONG_MAX :: int where
  "LONG_MAX = 2 ^ 63 - 1"

definition LONG_MIN :: int where
  "LONG_MIN = - (2 ^ 63)"

text \<open>\<^verbatim>\<open>strtol(s, &endptr, 10)\<close> on a 64-bit \<^verbatim>\<open>long\<close>: the value (saturated) and the offset
  of \<^verbatim>\<open>endptr\<close> from the start of the string.  Offset 0 is "no conversion".\<close>

definition strtol :: "string \<Rightarrow> int \<times> nat" where
  "strtol s =
     (let ws = takeWhile isspace s;
          s1 = dropWhile isspace s;
          neg = (s1 \<noteq> [] \<and> hd s1 = CHR ''-'');
          sg = (if s1 \<noteq> [] \<and> (hd s1 = CHR ''-'' \<or> hd s1 = CHR ''+'') then 1 else 0);
          s2 = drop sg s1;
          ds = takeWhile isdigit s2
      in if ds = [] then (0, 0)
         else (let n = digitsValue ds 0; v = (if neg then - n else n)
               in (max LONG_MIN (min LONG_MAX v), length ws + sg + length ds)))"

text \<open>The character at an offset of \<^verbatim>\<open>s.c_str()\<close>: the terminator past the end.\<close>

definition charAt :: "string \<Rightarrow> nat \<Rightarrow> char" where
  "charAt s i = (if i < length s then s ! i else CHR 0x00)"

text \<open>The test \<^verbatim>\<open>endptr == s.c_str() || *endptr != '\0'\<close> that guards each error line.\<close>

definition conversionFailed :: "string \<Rightarrow> bool" where
  "conversionFailed s = (let (v, off) = strtol s in off = 0 \<or> charAt s off \<noteq> CHR 0x00)"

text \<open>The narrowing \<^verbatim>\<open>int x = strtol(...)\<close>.\<close>

definition toInt :: "string \<Rightarrow> c_int" where
  "toInt s = word_of_int (fst (strtol s))"

datatype monitor_log =
    CouldNotRead
  | FailedToConvertPrevious string
  | FailedToConvertCurrent string

text \<open>\<^verbatim>\<open>readValue(fd, value_out)\<close> with a buffer of \<open>bufSize\<close> bytes: \<open>rd\<close> is what
  \<^verbatim>\<open>read\<close> delivers (\<open>None\<close> for a negative return).  The value is cut at the first
  newline or NUL; on failure \<^verbatim>\<open>value_out\<close> keeps its content.\<close>

definition readValue :: "nat \<Rightarrow> string option \<Rightarrow> string \<Rightarrow> string \<times> monitor_log list" where
  "readValue bufSize rd value_out =
     (case rd of
        None \<Rightarrow> (value_out, [CouldNotRead])
      | Some bytes \<Rightarrow>
          (takeWhile (\<lambda>c. c \<noteq> CHR 0x0A \<and> c \<noteq> CHR 0x00) (take (bufSize - 1) bytes), []))"

record sysfs_locals =
  current_value :: string
  previous_value :: string

text \<open>The error lines of the two conversions, in the order of the source.\<close>

definition conversionLog :: "sysfs_locals \<Rightarrow> monitor_log list" where
  "conversionLog l =
     (if conversionFailed (previous_value l) then [FailedToConvertPrevious (previous_value l)] else [])
     @ (if conversionFailed (current_value l) then [FailedToConvertCurrent (current_value l)] else [])"

text \<open>One pass of \<^verbatim>\<open>WltMonitor::monitorLoop\<close> (lines 169 to 186): the locals, the error lines
  and the arguments of \<^verbatim>\<open>onValueChanged\<close> when it is called.\<close>

definition WltMonitor_pass ::
  "string option \<Rightarrow> sysfs_locals \<Rightarrow> sysfs_locals \<times> monitor_log list \<times> (c_int \<times> c_int) option" where
  "WltMonitor_pass rd l =
     (let (cur, log0) = readValue 16 rd (current_value l);
          l1 = l\<lparr>current_value := cur\<rparr>
      in if current_value l1 \<noteq> previous_value l1 then
           (let prev_val = toInt (previous_value l1);
                curr_val = toInt (current_value l1)
            in (l1\<lparr>previous_value := current_value l1\<rparr>,
                log0 @ conversionLog l1,
                Some (prev_val, curr_val)))
         else (l1, log0, None))"

definition kGpuHighLoadPercent :: int where
  "kGpuHighLoadPercent = 40"

text \<open>The idle percentage of \<^verbatim>\<open>GpuRc6Monitor::monitorLoop\<close> (lines 166 to 171).  The
  subtraction is the 32-bit one (wrapping where C++ leaves the overflow undefined), widened
  with sign extension to \<^verbatim>\<open>unsigned long long\<close>.\<close>

definition idlePercent :: "c_int \<Rightarrow> c_int \<Rightarrow> real" where
  "idlePercent prev_val curr_val =
     (let delta_idle = (if sint curr_val \<ge> sint prev_val
                        then (scast (curr_val - prev_val) :: u64) else 0);
          percent = real (unat delta_idle) * 100 / 1000
      in if percent > 100 then 100 else percent)"

text \<open>One pass of \<^verbatim>\<open>GpuRc6Monitor::monitorLoop\<close> (lines 152 to 183).  The callback receives
  \<^verbatim>\<open>static_cast<int>(idle_percent)\<close> and the new \<^verbatim>\<open>gfxMode\<close>.\<close>

definition GpuRc6Monitor_pass ::
  "string option \<Rightarrow> sysfs_locals \<Rightarrow> sysfs_locals \<times> monitor_log list \<times> (c_int \<times> c_int) option" where
  "GpuRc6Monitor_pass rd l =
     (let (cur, log0) = readValue 32 rd (current_value l);
          l1 = l\<lparr>current_value := cur\<rparr>
      in if current_value l1 \<noteq> previous_value l1 then
           (let prev_val = toInt (previous_value l1);
                curr_val = toInt (current_value l1);
                idle_percent = idlePercent prev_val curr_val;
                gfxMode = (if idle_percent \<le> real_of_int kGpuHighLoadPercent then 1 else 0)
            in (l1\<lparr>previous_value := current_value l1\<rparr>,
                log0 @ conversionLog l1,
                Some (word_of_int \<lfloor>idle_percent\<rfloor>, gfxMode)))
         else (l1, log0, None))"

section \<open>Coordinator: runs of events\<close>

text \<open>
  What can happen to the coordinator once the threads run: a monitor calls the change
  callback, or the debounce thread finishes one of its two waits.  A run applies a list of
  such events in order.  The events are not restricted to the moments at which the source
  can produce them (a wait finishes only after its timer was armed), so the runs cover
  every execution of the coordinator and more.  \<^verbatim>\<open>SocDaemon::start()\<close> creates the HFI
  monitor only for \<^verbatim>\<open>socHint = "hfi"\<close>; \<open>fromHfi\<close> and \<open>fromSysLoad\<close> tell the callbacks of
  the HFI monitor and of the CPU-load monitor from the other events.
\<close>

datatype coordinator_event =
    MonitorAlert env string c_int c_int
  | EntryDebounceDone env
  | ExitDebounceDone env

fun coordinatorStep :: "coordinator_event \<Rightarrow> SocDaemon \<Rightarrow> SocDaemon" where
  "coordinatorStep (MonitorAlert e name oldValue newValue) d =
     handleChangeAlert e name oldValue newValue d"
| "coordinatorStep (EntryDebounceDone e) d = entryDebounceDone e d"
| "coordinatorStep (ExitDebounceDone e) d = exitDebounceDone e d"

fun coordinatorRun :: "coordinator_event list \<Rightarrow> SocDaemon \<Rightarrow> SocDaemon" where
  "coordinatorRun [] d = d"
| "coordinatorRun (ev # evs) d = coordinatorRun evs (coordinatorStep ev d)"

fun fromHfi :: "coordinator_event \<Rightarrow> bool" where
  "fromHfi (MonitorAlert e name oldValue newValue) = (name = ''HfiMonitor'')"
| "fromHfi (EntryDebounceDone e) = False"
| "fromHfi (ExitDebounceDone e) = False"

fun fromSysLoad :: "coordinator_event \<Rightarrow> bool" where
  "fromSysLoad (MonitorAlert e name oldValue newValue) = (name = ''SysLoadMonitor'')"
| "fromSysLoad (EntryDebounceDone e) = False"
| "fromSysLoad (ExitDebounceDone e) = False"

text \<open>The events at which the WLT handler overwrites \<^verbatim>\<open>latestSysCpuLoadCC_\<close> (lines 289 to
  292): a callback of the WLT monitor in "wlt" mode, in CoreContainment, whose old
  classification is Idle or Btl and whose new one is Sustain or Bursty.\<close>

fun snapshotEdge :: "coordinator_event \<Rightarrow> SocDaemon \<Rightarrow> bool" where
  "snapshotEdge (MonitorAlert e name oldValue newValue) d =
     (name = ''WltMonitor'' \<and> socHint d = ''wlt'' \<and> CCGlobalState d = CoreContainment \<and>
      (toWltType oldValue = Idle \<or> toWltType oldValue = Btl) \<and>
      (toWltType newValue = Sustain \<or> toWltType newValue = Bursty))"
| "snapshotEdge (EntryDebounceDone e) d = False"
| "snapshotEdge (ExitDebounceDone e) d = False"

text \<open>Two invariants of "wlt" mode: in CoreContainment the cached EFFICIENT_POWER value is
  1; and, stronger, the cached value is 1 exactly in CoreContainment.\<close>

definition cachedInContainment :: "SocDaemon \<Rightarrow> bool" where
  "cachedInContainment d =
     (socHint d = ''wlt'' \<and> (CCGlobalState d = CoreContainment \<longrightarrow> efficientMode d))"

definition cacheTracksState :: "SocDaemon \<Rightarrow> bool" where
  "cacheTracksState d =
     (socHint d = ''wlt'' \<and> (efficientMode d \<longleftrightarrow> CCGlobalState d = CoreContainment))"

section \<open>Concrete runs\<close>

text \<open>
  The runs below follow the spec's end-to-end scenarios and serve as concrete inputs.
  \<open>coldStart\<close> is the daemon started with \<^verbatim>\<open>--socHint wlt\<close> and hint forwarding enabled;
  \<open>afterIdle\<close> has seen the first WLT reading, Idle; \<open>contained\<close> is the state after the
  entry timer ran out at 10 percent CPU load (scenario 2); \<open>containedSustain\<close> has then
  seen WLT change from Idle to Sustain (\<^verbatim>\<open>/proc/stat\<close> unchanged since the last sample).
\<close>

definition envAt :: "u64 list option \<Rightarrow> real \<Rightarrow> env" where
  "envAt st t = \<lparr>procStat = st, clockNow = t, threadCreateOk = True\<rparr>"

definition coldStart :: SocDaemon where
  "coldStart = SocDaemon_start True True ''wlt'' False True 0"

definition afterIdle :: SocDaemon where
  "afterIdle = handleChangeAlert (envAt None 0) ''WltMonitor'' 0 0 coldStart"

definition contained :: SocDaemon where
  "contained = entryDebounceDone (envAt (Some [100, 0, 0, 900]) 10) afterIdle"

definition containedSustain :: SocDaemon where
  "containedSustain =
     handleChangeAlert (envAt (Some [100, 0, 0, 900]) 11) ''WltMonitor'' 0 2 contained"

text \<open>
  \<open>spikedIdle\<close> continues \<open>contained\<close>: the CPU-load monitor calls back (a busy spike) and
  WLT then changes from Idle to Btl, which arms the entry timer again.  \<open>silentIdle\<close> is
  \<open>afterIdle\<close> for a daemon started with hint forwarding disabled (the default of the
  command line).  \<open>containmentRun\<close> is the run Idle, Bursty, entry timer expiry at 10
  percent load, Bursty to Sustain; \<open>burstyContained\<close> and \<open>silentContained\<close> are its results
  with forwarding enabled and disabled.
\<close>

definition spikedIdle :: SocDaemon where
  "spikedIdle =
     coordinatorRun
       [MonitorAlert (envAt None 12) ''SysLoadMonitor'' 10 30,
        MonitorAlert (envAt None 13) ''WltMonitor'' 0 1]
       contained"

definition silentIdle :: SocDaemon where
  "silentIdle =
     handleChangeAlert (envAt None 0) ''WltMonitor'' 0 0
       (SocDaemon_start False True ''wlt'' False True 0)"

definition containmentRun :: "coordinator_event list" where
  "containmentRun =
     [MonitorAlert (envAt None 0) ''WltMonitor'' 0 0,
      MonitorAlert (envAt None 5) ''WltMonitor'' 0 3,
      EntryDebounceDone (envAt (Some [100, 0, 0, 900]) 10),
      MonitorAlert (envAt None 11) ''WltMonitor'' 3 2]"

definition burstyContained :: SocDaemon where
  "burstyContained =
     coordinatorRun containmentRun (SocDaemon_start True True ''wlt'' False True 0)"

definition silentContained :: SocDaemon where
  "silentContained =
     coordinatorRun containmentRun (SocDaemon_start False True ''wlt'' False True 0)"

section \<open>Auxiliary facts\<close>

lemmas sysload_defs =
  getSysCpuLoad_def getLatestSysCpuLoad_def SysLoadMonitor_getSysCpuLoad_def
  SysLoadMonitor_getLatestSysCpuLoad_def applyEmaIrregularSample_def
  SysLoadMonitor_pause_def SysLoadMonitor_restart_def kCpuEmaTimeConstantSec_def

lemmas timer_defs =
  startCCEntryDebounceTimer_def stopCCEntryDebounceTimer_def isCCEntryDebounceTimerRunning_def
  startCCExitDebounceTimer_def stopCCExitDebounceTimer_def isCCExitDebounceTimerRunning_def

lemmas coordinator_defs =
  handleChangeAlert_def wltInContainment_def wltInOpen_def toWltType_def
  gpuPauseIfRunning_def gpuResumeIfRunning_def GpuRc6Monitor_pause_def GpuRc6Monitor_resume_def
  sendHintIfAllowed_def sendGfxHintIfAllowed_def hintManager_sendHint_def
  entryDebounceDone_def exitDebounceDone_def kSysloadSlopeThreshold_def SocDaemon_start_def

lemmas run_defs =
  envAt_def coldStart_def afterIdle_def contained_def containedSustain_def
  spikedIdle_def silentIdle_def containmentRun_def burstyContained_def silentContained_def

lemmas strtol_defs =
  strtol_def isspace_def isdigit_def LONG_MAX_def LONG_MIN_def charAt_def
  conversionFailed_def toInt_def

lemmas pass_defs =
  WltMonitor_pass_def GpuRc6Monitor_pass_def readValue_def conversionLog_def

text \<open>Sampling the CPU load touches only the estimator.\<close>

lemma getSysCpuLoad_frame:
  "sendHint (snd (getSysCpuLoad e d)) = sendHint d"
  "sendGfxHint (snd (getSysCpuLoad e d)) = sendGfxHint d"
  "socHint (snd (getSysCpuLoad e d)) = socHint d"
  "efficientMode (snd (getSysCpuLoad e d)) = efficientMode d"
  "gfxMode (snd (getSysCpuLoad e d)) = gfxMode d"
  "CCGlobalState (snd (getSysCpuLoad e d)) = CCGlobalState d"
  "debounceThreadStarted (snd (getSysCpuLoad e d)) = debounceThreadStarted d"
  "ccEntryDebounceActive (snd (getSysCpuLoad e d)) = ccEntryDebounceActive d"
  "ccEntryDebounceCancelled (snd (getSysCpuLoad e d)) = ccEntryDebounceCancelled d"
  "ccExitDebounceActive (snd (getSysCpuLoad e d)) = ccExitDebounceActive d"
  "ccExitDebounceCancelled (snd (getSysCpuLoad e d)) = ccExitDebounceCancelled d"
  "ccExitDebounceMs (snd (getSysCpuLoad e d)) = ccExitDebounceMs d"
  "latestSysCpuLoadCC (snd (getSysCpuLoad e d)) = latestSysCpuLoadCC d"
  "gpuRc6MonitorPtr (snd (getSysCpuLoad e d)) = gpuRc6MonitorPtr d"
  "gpuMonitorThreadRunning (snd (getSysCpuLoad e d)) = gpuMonitorThreadRunning d"
  "sink (snd (getSysCpuLoad e d)) = sink d"
  by (simp_all add: getSysCpuLoad_def split: option.split prod.split)

lemma getSysCpuLoad_entry_flag:
  "getSysCpuLoad e (d\<lparr>ccEntryDebounceActive := b\<rparr>) =
     (fst (getSysCpuLoad e d), (snd (getSysCpuLoad e d))\<lparr>ccEntryDebounceActive := b\<rparr>)"
  by (simp add: getSysCpuLoad_def split: option.split prod.split)

lemma getSysCpuLoad_exit_flag:
  "getSysCpuLoad e (d\<lparr>ccExitDebounceActive := b\<rparr>) =
     (fst (getSysCpuLoad e d), (snd (getSysCpuLoad e d))\<lparr>ccExitDebounceActive := b\<rparr>)"
  by (simp add: getSysCpuLoad_def split: option.split prod.split)

text \<open>What one pass through the EFFICIENT_POWER gate does to the sink and to the cache.\<close>

lemma sendHintIfAllowed_sink:
  "sink (sendHintIfAllowed v d) =
     sink d @ (if sendHint d \<and> v \<noteq> (if efficientMode d then 1 else 0)
               then [(''EFFICIENT_POWER'', v \<noteq> 0)] else [])"
  by (simp add: sendHintIfAllowed_def hintManager_sendHint_def Let_def)

lemma sendHintIfAllowed_efficientMode:
  "efficientMode (sendHintIfAllowed v d) =
     (if v \<noteq> (if efficientMode d then 1 else 0) then v \<noteq> 0 else efficientMode d)"
  by (simp add: sendHintIfAllowed_def hintManager_sendHint_def Let_def)

lemma sendHintIfAllowed_frame:
  "CCGlobalState (sendHintIfAllowed v d) = CCGlobalState d"
  "ccEntryDebounceActive (sendHintIfAllowed v d) = ccEntryDebounceActive d"
  "ccEntryDebounceCancelled (sendHintIfAllowed v d) = ccEntryDebounceCancelled d"
  "ccExitDebounceActive (sendHintIfAllowed v d) = ccExitDebounceActive d"
  "ccExitDebounceCancelled (sendHintIfAllowed v d) = ccExitDebounceCancelled d"
  "ccExitDebounceMs (sendHintIfAllowed v d) = ccExitDebounceMs d"
  "ema (sendHintIfAllowed v d) = ema d"
  "gpuRc6MonitorPtr (sendHintIfAllowed v d) = gpuRc6MonitorPtr d"
  by (simp_all add: sendHintIfAllowed_def hintManager_sendHint_def Let_def)

text \<open>The mask \<^verbatim>\<open>& 0x3\<close> leaves four values, so \<open>Bursty\<close> is exactly the code 3; and the
  test \<^verbatim>\<open>newValue & (1 << 4)\<close> reads bit 4.\<close>

lemma and_3_cases: "(v::c_int) AND 3 = 0 \<or> v AND 3 = 1 \<or> v AND 3 = 2 \<or> v AND 3 = 3"
proof -
  have "v AND 3 = take_bit 2 v"
    by (simp add: take_bit_eq_mask mask_eq_exp_minus_1)
  moreover have "unat (take_bit 2 v) < 4"
    using unsigned_take_bit_eq [of 2 v, where ?'a = nat] by (simp add: take_bit_eq_mod)
  ultimately have "unat (v AND 3) < 4" by simp
  then have c: "unat (v AND 3) = 0 \<or> unat (v AND 3) = 1 \<or> unat (v AND 3) = 2 \<or> unat (v AND 3) = 3"
    by arith
  have r: "v AND 3 = word_of_nat (unat (v AND 3))" by simp
  from c show ?thesis
  proof (elim disjE)
    assume "unat (v AND 3) = 0" with r show ?thesis by simp
  next
    assume "unat (v AND 3) = 1" with r show ?thesis by simp
  next
    assume "unat (v AND 3) = 2" with r show ?thesis by simp
  next
    assume "unat (v AND 3) = 3" with r show ?thesis by simp
  qed
qed

lemma toWltType_Bursty: "toWltType v = Bursty \<longleftrightarrow> v AND 3 = 3"
  using and_3_cases [of v] by (auto simp add: toWltType_def Let_def)

lemma bit_4_test: "(w AND push_bit 4 1 = 0) \<longleftrightarrow> \<not> bit w 4" for w :: c_int
  using and_exp_eq_0_iff_not_bit [of w 4] by simp

lemma bit_4_test_numeral: "(w AND 16 = 0) \<longleftrightarrow> \<not> bit w 4" for w :: c_int
  using bit_4_test [of w] by simp

section \<open>C1: the busy-spike callback in CoreContainment\<close>

text \<open>
  Claim C1 as written fails.  Run the daemon from \<open>coldStart\<close> into containment and let WLT
  change to Sustain (\<open>containedSustain\<close>: state CoreContainment, exit timer running,
  forwarding enabled, cached EFFICIENT_POWER value 1).  The change callback named
  "SysLoadMonitor" then moves the state to Open, but the sink receives nothing (it still
  holds only the EFFICIENT_POWER=1 of the entry) and the exit timer is still active and
  not cancelled.
\<close>

theorem busy_spike_counterexample:
  "CCGlobalState containedSustain = CoreContainment \<and>
   ccExitDebounceActive containedSustain \<and>
   sendHint containedSustain \<and> efficientMode containedSustain \<and>
   sink containedSustain = [(''EFFICIENT_POWER'', True)] \<and>
   CCGlobalState (handleChangeAlert (envAt None 12) ''SysLoadMonitor'' 10 30 containedSustain) = Open \<and>
   sink (handleChangeAlert (envAt None 12) ''SysLoadMonitor'' 10 30 containedSustain) =
     [(''EFFICIENT_POWER'', True)] \<and>
   ccExitDebounceActive (handleChangeAlert (envAt None 12) ''SysLoadMonitor'' 10 30 containedSustain) \<and>
   \<not> ccExitDebounceCancelled (handleChangeAlert (envAt None 12) ''SysLoadMonitor'' 10 30 containedSustain)"
  by (simp add: run_defs sysload_defs coordinator_defs timer_defs Let_def)

text \<open>
  C1, amended: for every state of the coordinator in CoreContainment, the change callback
  named "SysLoadMonitor" moves the state to Open and leaves both flags of the exit
  debounce timer as they are; an exit timer that then runs out in state Open clears its
  active flag and does nothing else.  (Whether EFFICIENT_POWER=0 is sent is left out.)
\<close>

theorem busy_spike_in_containment:
  assumes "CCGlobalState d = CoreContainment"
  shows "CCGlobalState (handleChangeAlert e ''SysLoadMonitor'' oldValue newValue d) = Open \<and>
         ccExitDebounceActive (handleChangeAlert e ''SysLoadMonitor'' oldValue newValue d) =
           ccExitDebounceActive d \<and>
         ccExitDebounceCancelled (handleChangeAlert e ''SysLoadMonitor'' oldValue newValue d) =
           ccExitDebounceCancelled d \<and>
         (\<not> ccExitDebounceCancelled d \<longrightarrow>
            exitDebounceDone e' (handleChangeAlert e ''SysLoadMonitor'' oldValue newValue d) =
              (handleChangeAlert e ''SysLoadMonitor'' oldValue newValue d)\<lparr>ccExitDebounceActive := False\<rparr>)"
  using assms by (simp add: handleChangeAlert_def exitDebounceDone_def Let_def)

text \<open>Witness for C1 (amended): the theorem at \<open>containedSustain\<close>.\<close>

theorem busy_spike_in_containment_witness:
  "CCGlobalState containedSustain = CoreContainment \<and>
   \<not> ccExitDebounceCancelled containedSustain \<and>
   CCGlobalState (handleChangeAlert (envAt None 12) ''SysLoadMonitor'' 10 30 containedSustain) = Open \<and>
   ccExitDebounceActive (handleChangeAlert (envAt None 12) ''SysLoadMonitor'' 10 30 containedSustain) \<and>
   \<not> ccExitDebounceActive
       (exitDebounceDone (envAt None 13)
         (handleChangeAlert (envAt None 12) ''SysLoadMonitor'' 10 30 containedSustain))"
proof -
  have c: "CCGlobalState containedSustain = CoreContainment"
    by (simp add: run_defs sysload_defs coordinator_defs timer_defs Let_def)
  have a: "ccExitDebounceActive containedSustain \<and> \<not> ccExitDebounceCancelled containedSustain"
    by (simp add: run_defs sysload_defs coordinator_defs timer_defs Let_def)
  show ?thesis
    using busy_spike_in_containment [OF c, of "envAt None 12" 10 30 "envAt None 13"] c a
    by simp
qed

section \<open>C2: EFFICIENT_POWER and the CPU-load monitor\<close>

text \<open>
  Claim C2 as written fails: the coupling is the other way round.  At \<open>coldStart\<close> the
  CPU-load monitor is paused; sending EFFICIENT_POWER=1 changes the cached value, reaches
  the sink and leaves the monitor resumed, not paused; sending EFFICIENT_POWER=0 after
  that leaves it paused, not resumed.
\<close>

theorem efficient_power_coupling_counterexample:
  "map_option samplerPaused (sysLoadMonitorPtr coldStart) = Some True \<and>
   sink (sendHintIfAllowed 1 coldStart) = [(''EFFICIENT_POWER'', True)] \<and>
   map_option samplerPaused (sysLoadMonitorPtr (sendHintIfAllowed 1 coldStart)) = Some False \<and>
   sink (sendHintIfAllowed 0 (sendHintIfAllowed 1 coldStart)) =
     [(''EFFICIENT_POWER'', True), (''EFFICIENT_POWER'', False)] \<and>
   map_option samplerPaused (sysLoadMonitorPtr (sendHintIfAllowed 0 (sendHintIfAllowed 1 coldStart))) =
     Some True"
  by (simp add: run_defs sysload_defs coordinator_defs Let_def)

text \<open>
  C2, amended: for every request to the EFFICIENT_POWER gate that changes the cached value,
  with the CPU-load monitor registered: if the new value is 1 the coordinator restarts
  (resumes) the CPU-load monitor, and if the new value is 0 it pauses the monitor.
\<close>

theorem efficient_power_coupling:
  assumes "sysLoadMonitorPtr d = Some m"
    and "efficientMode (sendHintIfAllowed v d) \<noteq> efficientMode d"
  shows "(v = 1 \<longrightarrow>
            sysLoadMonitorPtr (sendHintIfAllowed v d) = Some (SysLoadMonitor_restart m) \<and>
            \<not> samplerPaused (SysLoadMonitor_restart m)) \<and>
         (v = 0 \<longrightarrow>
            sysLoadMonitorPtr (sendHintIfAllowed v d) = Some (SysLoadMonitor_pause m) \<and>
            samplerPaused (SysLoadMonitor_pause m))"
  using assms
  by (auto simp add: sendHintIfAllowed_def hintManager_sendHint_def Let_def
        SysLoadMonitor_restart_def SysLoadMonitor_pause_def split: if_splits)

text \<open>Witness for C2 (amended): the theorem at \<open>coldStart\<close> with the value 1.\<close>

theorem efficient_power_coupling_witness:
  "sysLoadMonitorPtr coldStart =
     Some \<lparr>samplerRunning = True, samplerPaused = True,
           lastSample = \<lparr>totalTime = 0, idleTime = 0\<rparr>,
           currentSample = \<lparr>totalTime = 0, idleTime = 0\<rparr>\<rparr> \<and>
   efficientMode (sendHintIfAllowed 1 coldStart) \<noteq> efficientMode coldStart \<and>
   sysLoadMonitorPtr (sendHintIfAllowed 1 coldStart) =
     Some \<lparr>samplerRunning = True, samplerPaused = False,
           lastSample = \<lparr>totalTime = 0, idleTime = 0\<rparr>,
           currentSample = \<lparr>totalTime = 0, idleTime = 0\<rparr>\<rparr>"
proof -
  have p: "sysLoadMonitorPtr coldStart =
     Some \<lparr>samplerRunning = True, samplerPaused = True,
           lastSample = \<lparr>totalTime = 0, idleTime = 0\<rparr>,
           currentSample = \<lparr>totalTime = 0, idleTime = 0\<rparr>\<rparr>"
    by (simp add: run_defs SocDaemon_start_def)
  have c: "efficientMode (sendHintIfAllowed 1 coldStart) \<noteq> efficientMode coldStart"
    by (simp add: run_defs sendHintIfAllowed_efficientMode SocDaemon_start_def)
  show ?thesis
    using efficient_power_coupling [OF p c] p c
    by (simp add: SysLoadMonitor_restart_def)
qed

section \<open>C3: hint gating\<close>











section \<open>C4: WLT events and the GPU monitor's pause flag\<close>

lemma handleChangeAlert_wlt:
  "socHint d = ''wlt'' \<Longrightarrow>
   handleChangeAlert e ''WltMonitor'' oldValue newValue d =
     (if CCGlobalState d = CoreContainment
      then wltInContainment e (toWltType oldValue) (toWltType newValue) d
      else wltInOpen (toWltType newValue) d)"
  by (simp add: handleChangeAlert_def Let_def)

lemma wltInOpen_gpu:
  assumes "gpuRc6MonitorPtr d = Some g"
  shows "gpuRc6MonitorPtr (wltInOpen w d) =
     Some (g\<lparr>paused :=
        (if gpuMonitorThreadRunning d \<and> (w = Idle \<or> w = Btl) then True
         else if gpuMonitorThreadRunning d \<and> w = Sustain then False
         else paused g)\<rparr>)"
  using assms
  by (cases w)
     (simp_all add: wltInOpen_def Let_def gpuPauseIfRunning_def gpuResumeIfRunning_def
        startCCEntryDebounceTimer_def stopCCEntryDebounceTimer_def
        GpuRc6Monitor_pause_def GpuRc6Monitor_resume_def)

lemma wltInContainment_gpu:
  assumes "gpuRc6MonitorPtr d = Some g"
  shows "gpuRc6MonitorPtr (wltInContainment e ow w d) =
     Some (g\<lparr>paused :=
        (if gpuMonitorThreadRunning d then (w = Idle \<or> w = Btl)
         else if (ow = Idle \<or> ow = Btl) \<and> (w = Sustain \<or> w = Bursty) \<and> threadCreateOk e
         then False else paused g)\<rparr>)"
  using assms
  by (cases w; cases ow)
     (simp_all add: wltInContainment_def Let_def gpuPauseIfRunning_def gpuResumeIfRunning_def
        startCCExitDebounceTimer_def stopCCExitDebounceTimer_def getSysCpuLoad_frame
        isCCExitDebounceTimerRunning_def
        GpuRc6Monitor_pause_def GpuRc6Monitor_resume_def)

text \<open>
  Claim C4 as written fails, in two ways.  (a) At \<open>coldStart\<close> the GPU monitor is registered
  and paused; the first WLT event, with classification Sustain, leaves it paused, because
  \<^verbatim>\<open>gpuMonitorThreadRunning_\<close> is still false.  (b) Once that flag is set (in
  \<open>containedSustain\<close>), leave containment by a busy spike, see Idle (the monitor is paused)
  and then Bursty in state Open: the monitor is still paused.
\<close>

theorem wlt_gpu_pause_counterexample:
  "toWltType 2 = Sustain \<and>
   map_option paused (gpuRc6MonitorPtr coldStart) = Some True \<and>
   map_option paused
     (gpuRc6MonitorPtr (handleChangeAlert (envAt None 0) ''WltMonitor'' 0 2 coldStart)) = Some True \<and>
   toWltType 3 = Bursty \<and>
   gpuMonitorThreadRunning containedSustain \<and>
   map_option paused
     (gpuRc6MonitorPtr
       (handleChangeAlert (envAt None 14) ''WltMonitor'' 0 3
         (handleChangeAlert (envAt None 13) ''WltMonitor'' 2 0
           (handleChangeAlert (envAt None 12) ''SysLoadMonitor'' 10 30 containedSustain)))) = Some True"
  by (simp add: run_defs sysload_defs coordinator_defs timer_defs Let_def)

text \<open>
  C4, amended: in soc_hint="wlt" mode with the GPU monitor registered, a WLT event sets the
  pause flag of the GPU monitor as follows.  While \<^verbatim>\<open>gpuMonitorThreadRunning_\<close> is set: a
  new classification in {Idle, Btl} pauses the monitor, Sustain resumes it, and Bursty
  resumes it in CoreContainment and leaves the flag unchanged in Open.  While
  \<^verbatim>\<open>gpuMonitorThreadRunning_\<close> is clear: the flag is unchanged, except that in
  CoreContainment a change from {Idle, Btl} to {Sustain, Bursty} whose thread creation
  succeeds resumes the monitor.
\<close>

theorem wlt_gpu_pause:
  assumes "socHint d = ''wlt''" and "gpuRc6MonitorPtr d = Some g"
  shows "(gpuMonitorThreadRunning d \<longrightarrow>
            gpuRc6MonitorPtr (handleChangeAlert e ''WltMonitor'' oldValue newValue d) =
              Some (g\<lparr>paused :=
                (if toWltType newValue = Idle \<or> toWltType newValue = Btl then True
                 else if toWltType newValue = Sustain \<or> CCGlobalState d = CoreContainment then False
                 else paused g)\<rparr>)) \<and>
         (\<not> gpuMonitorThreadRunning d \<longrightarrow>
            gpuRc6MonitorPtr (handleChangeAlert e ''WltMonitor'' oldValue newValue d) =
              Some (g\<lparr>paused :=
                (if CCGlobalState d = CoreContainment \<and>
                    (toWltType oldValue = Idle \<or> toWltType oldValue = Btl) \<and>
                    (toWltType newValue = Sustain \<or> toWltType newValue = Bursty) \<and>
                    threadCreateOk e
                 then False else paused g)\<rparr>))"
  using assms
  by (cases "toWltType newValue")
     (simp_all add: handleChangeAlert_wlt wltInOpen_gpu wltInContainment_gpu)

text \<open>Witness for C4 (amended): in \<open>containedSustain\<close> the GPU thread flag is set and the
  monitor runs; the WLT event Sustain to Idle pauses it.  In \<open>contained\<close> the flag is
  clear; the event Idle to Sustain, with a successful thread creation, resumes it.\<close>

theorem wlt_gpu_pause_witness:
  "socHint containedSustain = ''wlt'' \<and>
   gpuRc6MonitorPtr containedSustain = Some \<lparr>paused = False, shouldExit = False\<rparr> \<and>
   gpuMonitorThreadRunning containedSustain \<and>
   gpuRc6MonitorPtr (handleChangeAlert (envAt None 12) ''WltMonitor'' 2 0 containedSustain) =
     Some \<lparr>paused = True, shouldExit = False\<rparr> \<and>
   socHint contained = ''wlt'' \<and>
   gpuRc6MonitorPtr contained = Some \<lparr>paused = True, shouldExit = False\<rparr> \<and>
   \<not> gpuMonitorThreadRunning contained \<and>
   gpuRc6MonitorPtr (handleChangeAlert (envAt None 11) ''WltMonitor'' 0 2 contained) =
     Some \<lparr>paused = False, shouldExit = False\<rparr>"
proof -
  have s: "socHint containedSustain = ''wlt''"
    by (simp add: run_defs sysload_defs coordinator_defs timer_defs Let_def)
  have g: "gpuRc6MonitorPtr containedSustain = Some \<lparr>paused = False, shouldExit = False\<rparr>"
    by (simp add: run_defs sysload_defs coordinator_defs timer_defs Let_def)
  have r: "gpuMonitorThreadRunning containedSustain \<and> CCGlobalState containedSustain = CoreContainment"
    by (simp add: run_defs sysload_defs coordinator_defs timer_defs Let_def)
  have s': "socHint contained = ''wlt''"
    by (simp add: run_defs sysload_defs coordinator_defs timer_defs Let_def)
  have g': "gpuRc6MonitorPtr contained = Some \<lparr>paused = True, shouldExit = False\<rparr>"
    by (simp add: run_defs sysload_defs coordinator_defs timer_defs Let_def)
  have r': "\<not> gpuMonitorThreadRunning contained \<and> CCGlobalState contained = CoreContainment"
    by (simp add: run_defs sysload_defs coordinator_defs timer_defs Let_def)
  have w: "toWltType 0 = Idle" "toWltType 2 = Sustain"
    by (simp_all add: toWltType_def)
  show ?thesis
    using wlt_gpu_pause [OF s g, of "envAt None 12" 2 0]
          wlt_gpu_pause [OF s' g', of "envAt None 11" 0 2] s g r s' g' r' w
    by (simp add: envAt_def)
qed

section \<open>C5: the irregular-interval EMA\<close>

lemma ema_alpha_range:
  assumes "0 \<le> (dt::real)"
  shows "0 \<le> 1 - exp (- dt / kCpuEmaTimeConstantSec)"
    and "1 - exp (- dt / kCpuEmaTimeConstantSec) \<le> 1"
  using assms by (simp_all add: kCpuEmaTimeConstantSec_def)

text \<open>
  Claim C5 (over the reals): a defined raw sample (\<open>raw \<ge> 0\<close>) that arrives \<open>dt \<ge> 0\<close>
  seconds after the previous update, with the estimate initialised to \<open>v \<ge> 0\<close>, makes the
  estimate \<open>v * (1 - \<alpha>) + raw * \<alpha>\<close> with \<open>\<alpha> = 1 - exp (- dt / 1.5)\<close> (the clamps of
  \<open>\<alpha>\<close> to [0, 1] never fire), records \<open>v\<close> as the previous value and refreshes the
  timestamp; an undefined sample (\<open>raw < 0\<close>) refreshes the timestamp and changes nothing
  else; and a defined sample that meets an uninitialised estimate (negative) sets it to
  \<open>raw\<close>.
\<close>

theorem ema_irregular_update:
  "(0 \<le> raw \<and> 0 \<le> g_cpuEmaValue g \<and> 0 \<le> dt \<longrightarrow>
      applyEmaIrregularSample (g_cpuEmaLastTs g + dt) raw g =
        (g_cpuEmaValue g * (1 - (1 - exp (- dt / 1.5))) + raw * (1 - exp (- dt / 1.5)),
         g\<lparr>g_cpuEmaValuePrev := g_cpuEmaValue g,
           g_cpuEmaValue :=
             g_cpuEmaValue g * (1 - (1 - exp (- dt / 1.5))) + raw * (1 - exp (- dt / 1.5)),
           g_cpuEmaLastTs := g_cpuEmaLastTs g + dt\<rparr>)) \<and>
   (raw < 0 \<longrightarrow>
      snd (applyEmaIrregularSample now raw g) = g\<lparr>g_cpuEmaLastTs := now\<rparr>) \<and>
   (0 \<le> raw \<and> g_cpuEmaValue g < 0 \<longrightarrow>
      applyEmaIrregularSample now raw g =
        (raw, g\<lparr>g_cpuEmaValue := raw, g_cpuEmaLastTs := now\<rparr>))"
proof (intro conjI impI)
  assume h: "0 \<le> raw \<and> 0 \<le> g_cpuEmaValue g \<and> 0 \<le> dt"
  then have a: "\<not> 1 - exp (- dt / kCpuEmaTimeConstantSec) < 0"
    "\<not> 1 - exp (- dt / kCpuEmaTimeConstantSec) > 1"
    using ema_alpha_range [of dt] by simp_all
  have k: "exp (- dt / 1.5) = exp (- dt / kCpuEmaTimeConstantSec)"
    by (simp add: kCpuEmaTimeConstantSec_def)
  from h have n: "\<not> raw < 0" "\<not> g_cpuEmaValue g < 0" "\<not> dt < 0" by simp_all
  show "applyEmaIrregularSample (g_cpuEmaLastTs g + dt) raw g =
        (g_cpuEmaValue g * (1 - (1 - exp (- dt / 1.5))) + raw * (1 - exp (- dt / 1.5)),
         g\<lparr>g_cpuEmaValuePrev := g_cpuEmaValue g,
           g_cpuEmaValue :=
             g_cpuEmaValue g * (1 - (1 - exp (- dt / 1.5))) + raw * (1 - exp (- dt / 1.5)),
           g_cpuEmaLastTs := g_cpuEmaLastTs g + dt\<rparr>)"
    unfolding k applyEmaIrregularSample_def Let_def using a n by simp
next
  assume "raw < 0"
  then show "snd (applyEmaIrregularSample now raw g) = g\<lparr>g_cpuEmaLastTs := now\<rparr>"
    by (simp add: applyEmaIrregularSample_def Let_def)
next
  assume "0 \<le> raw \<and> g_cpuEmaValue g < 0"
  then show "applyEmaIrregularSample now raw g =
      (raw, g\<lparr>g_cpuEmaValue := raw, g_cpuEmaLastTs := now\<rparr>)"
    by (simp add: applyEmaIrregularSample_def Let_def)
qed

text \<open>Witness for C5: estimate 10, raw sample 50 after 3 seconds; the undefined sample
  -1; and the first sample 50 on the statics as initialised.\<close>

theorem ema_irregular_update_witness:
  "(0::real) \<le> 50 \<and> (0::real) \<le> 10 \<and> (0::real) \<le> 3 \<and>
   applyEmaIrregularSample 3 50
       \<lparr>g_cpuEmaValue = 10, g_cpuEmaValuePrev = -1, g_cpuEmaLastTs = 0\<rparr> =
     (10 * (1 - (1 - exp (- 3 / 1.5))) + 50 * (1 - exp (- 3 / 1.5)),
      \<lparr>g_cpuEmaValue = 10 * (1 - (1 - exp (- 3 / 1.5))) + 50 * (1 - exp (- 3 / 1.5)),
       g_cpuEmaValuePrev = 10, g_cpuEmaLastTs = 3\<rparr>) \<and>
   (-1::real) < 0 \<and>
   snd (applyEmaIrregularSample 3 (-1)
         \<lparr>g_cpuEmaValue = 10, g_cpuEmaValuePrev = -1, g_cpuEmaLastTs = 0\<rparr>) =
     \<lparr>g_cpuEmaValue = 10, g_cpuEmaValuePrev = -1, g_cpuEmaLastTs = 3\<rparr> \<and>
   applyEmaIrregularSample 3 50
       \<lparr>g_cpuEmaValue = -1, g_cpuEmaValuePrev = -1, g_cpuEmaLastTs = 0\<rparr> =
     (50, \<lparr>g_cpuEmaValue = 50, g_cpuEmaValuePrev = -1, g_cpuEmaLastTs = 3\<rparr>)"
  using ema_irregular_update
          [of 50 "\<lparr>g_cpuEmaValue = 10, g_cpuEmaValuePrev = -1, g_cpuEmaLastTs = 0\<rparr>" 3 3]
        ema_irregular_update
          [of "-1" "\<lparr>g_cpuEmaValue = 10, g_cpuEmaValuePrev = -1, g_cpuEmaLastTs = 0\<rparr>" 0 3]
        ema_irregular_update
          [of 50 "\<lparr>g_cpuEmaValue = -1, g_cpuEmaValuePrev = -1, g_cpuEmaLastTs = 0\<rparr>" 0 3]
  by simp

section \<open>Invariants of the runs in "wlt" mode\<close>

lemma wlt_policy_frame:
  "socHint (wltInOpen w d) = socHint d"
  "sendHint (wltInOpen w d) = sendHint d"
  "CCGlobalState (wltInOpen w d) = CCGlobalState d"
  "efficientMode (wltInOpen w d) = efficientMode d"
  "socHint (wltInContainment e ow w d) = socHint d"
  "sendHint (wltInContainment e ow w d) = sendHint d"
  "CCGlobalState (wltInContainment e ow w d) = CCGlobalState d"
  "efficientMode (wltInContainment e ow w d) = efficientMode d"
  by (simp_all add: wltInOpen_def wltInContainment_def Let_def gpuPauseIfRunning_def
        gpuResumeIfRunning_def timer_defs getSysCpuLoad_frame)

lemma gate_frame:
  "socHint (sendHintIfAllowed v d) = socHint d"
  "sendHint (sendHintIfAllowed v d) = sendHint d"
  "socHint (sendGfxHintIfAllowed v d) = socHint d"
  "sendHint (sendGfxHintIfAllowed v d) = sendHint d"
  "CCGlobalState (sendGfxHintIfAllowed v d) = CCGlobalState d"
  "efficientMode (sendGfxHintIfAllowed v d) = efficientMode d"
  by (simp_all add: sendHintIfAllowed_def sendGfxHintIfAllowed_def hintManager_sendHint_def Let_def)

text \<open>Without callbacks of the HFI monitor, containment keeps the cached value 1.\<close>

lemma handleChangeAlert_cached:
  assumes "cachedInContainment d" and "name \<noteq> ''HfiMonitor''"
  shows "cachedInContainment (handleChangeAlert e name oldValue newValue d) \<and>
         sendHint (handleChangeAlert e name oldValue newValue d) = sendHint d"
  using assms
  by (simp add: cachedInContainment_def handleChangeAlert_def Let_def wlt_policy_frame gate_frame
        sendHintIfAllowed_frame)

lemma entryDebounceDone_cached:
  assumes "cachedInContainment d"
  shows "cachedInContainment (entryDebounceDone e d) \<and>
         sendHint (entryDebounceDone e d) = sendHint d"
  using assms
  by (simp add: cachedInContainment_def entryDebounceDone_def Let_def getSysCpuLoad_entry_flag
        getSysCpuLoad_frame gate_frame sendHintIfAllowed_frame sendHintIfAllowed_efficientMode
        split: prod.split)

lemma exitDebounceDone_cached:
  assumes "cachedInContainment d"
  shows "cachedInContainment (exitDebounceDone e d) \<and>
         sendHint (exitDebounceDone e d) = sendHint d"
  using assms
  by (simp add: cachedInContainment_def exitDebounceDone_def Let_def getSysCpuLoad_exit_flag
        getSysCpuLoad_frame gate_frame sendHintIfAllowed_frame sendHintIfAllowed_efficientMode
        startCCExitDebounceTimer_def split: prod.split)

lemma coordinatorStep_cached:
  assumes "cachedInContainment d" and "\<not> fromHfi ev"
  shows "cachedInContainment (coordinatorStep ev d) \<and>
         sendHint (coordinatorStep ev d) = sendHint d"
  using assms
  by (cases ev)
     (simp_all add: handleChangeAlert_cached entryDebounceDone_cached exitDebounceDone_cached)

lemma coordinatorRun_cached:
  assumes "cachedInContainment d" and "\<forall>ev \<in> set evs. \<not> fromHfi ev"
  shows "cachedInContainment (coordinatorRun evs d) \<and>
         sendHint (coordinatorRun evs d) = sendHint d"
  using assms
proof (induction evs arbitrary: d)
  case Nil
  then show ?case by simp
next
  case (Cons ev evs)
  then have "cachedInContainment (coordinatorStep ev d) \<and>
             sendHint (coordinatorStep ev d) = sendHint d"
    using coordinatorStep_cached [of d ev] by simp
  then show ?case
    using Cons.IH [of "coordinatorStep ev d"] Cons.prems by simp
qed

text \<open>Without callbacks of the HFI and of the CPU-load monitor, the cached value is 1
  exactly in containment.\<close>

lemma handleChangeAlert_tracks:
  assumes "cacheTracksState d" and "name \<noteq> ''HfiMonitor''" and "name \<noteq> ''SysLoadMonitor''"
  shows "cacheTracksState (handleChangeAlert e name oldValue newValue d) \<and>
         sendHint (handleChangeAlert e name oldValue newValue d) = sendHint d"
  using assms
  by (simp add: cacheTracksState_def handleChangeAlert_def Let_def wlt_policy_frame gate_frame
        sendHintIfAllowed_frame)

lemma entryDebounceDone_tracks:
  assumes "cacheTracksState d"
  shows "cacheTracksState (entryDebounceDone e d) \<and>
         sendHint (entryDebounceDone e d) = sendHint d"
  using assms
  by (simp add: cacheTracksState_def entryDebounceDone_def Let_def getSysCpuLoad_entry_flag
        getSysCpuLoad_frame gate_frame sendHintIfAllowed_frame sendHintIfAllowed_efficientMode
        split: prod.split)

lemma exitDebounceDone_tracks:
  assumes "cacheTracksState d"
  shows "cacheTracksState (exitDebounceDone e d) \<and>
         sendHint (exitDebounceDone e d) = sendHint d"
  using assms
  by (simp add: cacheTracksState_def exitDebounceDone_def Let_def getSysCpuLoad_exit_flag
        getSysCpuLoad_frame gate_frame sendHintIfAllowed_frame sendHintIfAllowed_efficientMode
        startCCExitDebounceTimer_def split: prod.split)

lemma coordinatorStep_tracks:
  assumes "cacheTracksState d" and "\<not> fromHfi ev" and "\<not> fromSysLoad ev"
  shows "cacheTracksState (coordinatorStep ev d) \<and>
         sendHint (coordinatorStep ev d) = sendHint d"
  using assms
  by (cases ev)
     (simp_all add: handleChangeAlert_tracks entryDebounceDone_tracks exitDebounceDone_tracks)

lemma coordinatorRun_tracks:
  assumes "cacheTracksState d" and "\<forall>ev \<in> set evs. \<not> fromHfi ev \<and> \<not> fromSysLoad ev"
  shows "cacheTracksState (coordinatorRun evs d) \<and>
         sendHint (coordinatorRun evs d) = sendHint d"
  using assms
proof (induction evs arbitrary: d)
  case Nil
  then show ?case by simp
next
  case (Cons ev evs)
  then have "cacheTracksState (coordinatorStep ev d) \<and>
             sendHint (coordinatorStep ev d) = sendHint d"
    using coordinatorStep_tracks [of d ev] by simp
  then show ?case
    using Cons.IH [of "coordinatorStep ev d"] Cons.prems by simp
qed

lemma start_invariants:
  "cachedInContainment (SocDaemon_start sh sg ''wlt'' gfx0 gi t0)"
  "cacheTracksState (SocDaemon_start sh sg ''wlt'' gfx0 gi t0)"
  "sendHint (SocDaemon_start sh sg ''wlt'' gfx0 gi t0) = sh"
  by (simp_all add: cachedInContainment_def cacheTracksState_def SocDaemon_start_def)

text \<open>Where \<^verbatim>\<open>latestSysCpuLoadCC_\<close> is written.\<close>

lemma snapshot_gate_frame:
  "latestSysCpuLoadCC (sendHintIfAllowed v d) = latestSysCpuLoadCC d"
  "latestSysCpuLoadCC (sendGfxHintIfAllowed v d) = latestSysCpuLoadCC d"
  "latestSysCpuLoadCC (wltInOpen w d) = latestSysCpuLoadCC d"
  by (simp_all add: sendHintIfAllowed_def sendGfxHintIfAllowed_def hintManager_sendHint_def
        wltInOpen_def gpuPauseIfRunning_def gpuResumeIfRunning_def timer_defs Let_def)

lemma snapshot_timer_frame:
  "latestSysCpuLoadCC (entryDebounceDone e d) = latestSysCpuLoadCC d"
  "latestSysCpuLoadCC (exitDebounceDone e d) = latestSysCpuLoadCC d"
  by (simp_all add: snapshot_gate_frame entryDebounceDone_def exitDebounceDone_def
        getSysCpuLoad_entry_flag getSysCpuLoad_exit_flag getSysCpuLoad_frame
        startCCExitDebounceTimer_def Let_def)

lemma wltInContainment_snapshot:
  "latestSysCpuLoadCC (wltInContainment e ow w d) =
     (if (ow = Idle \<or> ow = Btl) \<and> (w = Sustain \<or> w = Bursty)
      then getLatestSysCpuLoad d else latestSysCpuLoadCC d)"
  by (simp add: wltInContainment_def gpuPauseIfRunning_def gpuResumeIfRunning_def timer_defs
        getSysCpuLoad_frame Let_def)

lemma coordinatorStep_snapshot:
  "latestSysCpuLoadCC (coordinatorStep ev d) =
     (if snapshotEdge ev d then getLatestSysCpuLoad d else latestSysCpuLoadCC d)"
proof (cases ev)
  case (MonitorAlert e name oldValue newValue)
  then show ?thesis
    by (simp add: handleChangeAlert_def Let_def snapshot_gate_frame wltInContainment_snapshot)
next
  case (EntryDebounceDone e)
  then show ?thesis by (simp add: snapshot_timer_frame)
next
  case (ExitDebounceDone e)
  then show ?thesis by (simp add: snapshot_timer_frame)
qed

section \<open>C6: expiry of the entry debounce timer\<close>

text \<open>
  Claim C6 as written fails: the entry expiry does not always send EFFICIENT_POWER=1.
  (a) In \<open>spikedIdle\<close> (forwarding enabled) the coordinator entered containment, left it by
  a busy spike, which sent nothing and left the cached value at 1, and armed the entry
  timer again; the timer now runs out in state Open at a load of 10 percent: the state
  becomes CoreContainment and the sink receives nothing.  (b) In \<open>silentIdle\<close> forwarding is
  disabled: the same expiry enters CoreContainment and the sink stays empty.
\<close>

theorem entry_debounce_counterexample:
  "CCGlobalState spikedIdle = Open \<and>
   ccEntryDebounceActive spikedIdle \<and> \<not> ccEntryDebounceCancelled spikedIdle \<and>
   sendHint spikedIdle \<and>
   sink spikedIdle = [(''EFFICIENT_POWER'', True)] \<and>
   fst (getSysCpuLoad (envAt None 23) spikedIdle) = 10 \<and>
   CCGlobalState (entryDebounceDone (envAt None 23) spikedIdle) = CoreContainment \<and>
   sink (entryDebounceDone (envAt None 23) spikedIdle) = [(''EFFICIENT_POWER'', True)] \<and>
   CCGlobalState silentIdle = Open \<and>
   ccEntryDebounceActive silentIdle \<and> \<not> ccEntryDebounceCancelled silentIdle \<and>
   fst (getSysCpuLoad (envAt (Some [100, 0, 0, 900]) 10) silentIdle) = 10 \<and>
   CCGlobalState (entryDebounceDone (envAt (Some [100, 0, 0, 900]) 10) silentIdle) =
     CoreContainment \<and>
   sink (entryDebounceDone (envAt (Some [100, 0, 0, 900]) 10) silentIdle) = []"
  by (simp add: run_defs sysload_defs coordinator_defs timer_defs Let_def)

text \<open>
  C6, amended: when the wait of the entry timer ends with the cancelled flag clear and the
  state is Open, the coordinator takes one CPU-load sample.  If the sample is below 25 the
  state becomes CoreContainment and EFFICIENT_POWER=1 is passed to the hint gate exactly
  once (one \<open>sendHintIfAllowed 1\<close> on the sampled state; the cached value is 1 afterwards):
  the sink receives exactly the one call EFFICIENT_POWER=true when forwarding is enabled
  and the cached value is 0, and no call otherwise.  Forwarding enabled and cached value 0
  hold in every state that a run in "wlt" mode with forwarding enabled reaches from the
  start without a callback of the CPU-load monitor.  If the sample is not below 25 the
  state stays Open, and neither the sink nor the cached value changes.
\<close>

theorem entry_debounce_expiry:
  assumes "CCGlobalState d = Open" and "\<not> ccEntryDebounceCancelled d"
  shows "(fst (getSysCpuLoad e d) < 25 \<longrightarrow>
            entryDebounceDone e d =
              sendHintIfAllowed 1
                ((snd (getSysCpuLoad e d))\<lparr>ccEntryDebounceActive := False,
                                             CCGlobalState := CoreContainment\<rparr>) \<and>
            CCGlobalState (entryDebounceDone e d) = CoreContainment \<and>
            efficientMode (entryDebounceDone e d) \<and>
            sink (entryDebounceDone e d) =
              sink d @ (if sendHint d \<and> \<not> efficientMode d
                        then [(''EFFICIENT_POWER'', True)] else []) \<and>
            (d = coordinatorRun evs (SocDaemon_start True sendGfx ''wlt'' gfx0 gpuInitOk t0) \<and>
             (\<forall>ev \<in> set evs. \<not> fromHfi ev \<and> \<not> fromSysLoad ev) \<longrightarrow>
               sink (entryDebounceDone e d) = sink d @ [(''EFFICIENT_POWER'', True)])) \<and>
         (\<not> fst (getSysCpuLoad e d) < 25 \<longrightarrow>
            entryDebounceDone e d = (snd (getSysCpuLoad e d))\<lparr>ccEntryDebounceActive := False\<rparr> \<and>
            CCGlobalState (entryDebounceDone e d) = Open \<and>
            efficientMode (entryDebounceDone e d) = efficientMode d \<and>
            sink (entryDebounceDone e d) = sink d)"
proof -
  have body: "(fst (getSysCpuLoad e d) < 25 \<longrightarrow>
            entryDebounceDone e d =
              sendHintIfAllowed 1
                ((snd (getSysCpuLoad e d))\<lparr>ccEntryDebounceActive := False,
                                             CCGlobalState := CoreContainment\<rparr>) \<and>
            CCGlobalState (entryDebounceDone e d) = CoreContainment \<and>
            efficientMode (entryDebounceDone e d) \<and>
            sink (entryDebounceDone e d) =
              sink d @ (if sendHint d \<and> \<not> efficientMode d
                        then [(''EFFICIENT_POWER'', True)] else [])) \<and>
         (\<not> fst (getSysCpuLoad e d) < 25 \<longrightarrow>
            entryDebounceDone e d = (snd (getSysCpuLoad e d))\<lparr>ccEntryDebounceActive := False\<rparr> \<and>
            CCGlobalState (entryDebounceDone e d) = Open \<and>
            efficientMode (entryDebounceDone e d) = efficientMode d \<and>
            sink (entryDebounceDone e d) = sink d)"
    using assms
    by (simp add: entryDebounceDone_def Let_def getSysCpuLoad_entry_flag getSysCpuLoad_frame
          sendHintIfAllowed_sink sendHintIfAllowed_efficientMode sendHintIfAllowed_frame)
  have reach: "sendHint d \<and> \<not> efficientMode d"
    if "d = coordinatorRun evs (SocDaemon_start True sendGfx ''wlt'' gfx0 gpuInitOk t0)"
      and "\<forall>ev \<in> set evs. \<not> fromHfi ev \<and> \<not> fromSysLoad ev"
  proof -
    have "cacheTracksState d \<and> sendHint d"
      using coordinatorRun_tracks [OF start_invariants(2) that(2), of True sendGfx gfx0 gpuInitOk t0]
        that(1) start_invariants(3) [of True sendGfx gfx0 gpuInitOk t0]
      by simp
    then show ?thesis
      using assms(1) by (simp add: cacheTracksState_def)
  qed
  from body reach show ?thesis by auto
qed

text \<open>Witness for C6: scenario 2 (\<open>afterIdle\<close> is the run of one WLT callback from
  \<open>coldStart\<close>; at a load of 10 percent the coordinator enters containment and the sink
  receives EFFICIENT_POWER=true once), and the same state at a load of 90 percent.\<close>

theorem entry_debounce_expiry_witness:
  "CCGlobalState afterIdle = Open \<and> \<not> ccEntryDebounceCancelled afterIdle \<and>
   afterIdle = coordinatorRun [MonitorAlert (envAt None 0) ''WltMonitor'' 0 0]
                 (SocDaemon_start True True ''wlt'' False True 0) \<and>
   \<not> fromHfi (MonitorAlert (envAt None 0) ''WltMonitor'' 0 0) \<and>
   \<not> fromSysLoad (MonitorAlert (envAt None 0) ''WltMonitor'' 0 0) \<and>
   sink afterIdle = [] \<and>
   fst (getSysCpuLoad (envAt (Some [100, 0, 0, 900]) 10) afterIdle) = 10 \<and>
   CCGlobalState contained = CoreContainment \<and>
   sink contained = [(''EFFICIENT_POWER'', True)] \<and>
   fst (getSysCpuLoad (envAt (Some [900, 0, 0, 100]) 10) afterIdle) = 90 \<and>
   CCGlobalState (entryDebounceDone (envAt (Some [900, 0, 0, 100]) 10) afterIdle) = Open \<and>
   sink (entryDebounceDone (envAt (Some [900, 0, 0, 100]) 10) afterIdle) = []"
proof -
  have o: "CCGlobalState afterIdle = Open"
    by (simp add: run_defs sysload_defs coordinator_defs timer_defs Let_def)
  have c: "\<not> ccEntryDebounceCancelled afterIdle"
    by (simp add: run_defs sysload_defs coordinator_defs timer_defs Let_def)
  have r: "afterIdle = coordinatorRun [MonitorAlert (envAt None 0) ''WltMonitor'' 0 0]
                 (SocDaemon_start True True ''wlt'' False True 0)"
    by (simp add: afterIdle_def coldStart_def)
  have k: "sink afterIdle = []"
    by (simp add: run_defs sysload_defs coordinator_defs timer_defs Let_def)
  have l1: "fst (getSysCpuLoad (envAt (Some [100, 0, 0, 900]) 10) afterIdle) = 10"
    by (simp add: run_defs sysload_defs coordinator_defs timer_defs Let_def)
  have l2: "fst (getSysCpuLoad (envAt (Some [900, 0, 0, 100]) 10) afterIdle) = 90"
    by (simp add: run_defs sysload_defs coordinator_defs timer_defs Let_def)
  have lt: "fst (getSysCpuLoad (envAt (Some [100, 0, 0, 900]) 10) afterIdle) < 25"
    using l1 by simp
  have ge: "\<not> fst (getSysCpuLoad (envAt (Some [900, 0, 0, 100]) 10) afterIdle) < 25"
    using l2 by simp
  have ev: "\<forall>ev \<in> set [MonitorAlert (envAt None 0) ''WltMonitor'' 0 0].
              \<not> fromHfi ev \<and> \<not> fromSysLoad ev"
    by simp
  have 1: "sink (entryDebounceDone (envAt (Some [100, 0, 0, 900]) 10) afterIdle) =
             sink afterIdle @ [(''EFFICIENT_POWER'', True)] \<and>
           CCGlobalState (entryDebounceDone (envAt (Some [100, 0, 0, 900]) 10) afterIdle) =
             CoreContainment"
    using entry_debounce_expiry [OF o c, of "envAt (Some [100, 0, 0, 900]) 10"
        "[MonitorAlert (envAt None 0) ''WltMonitor'' 0 0]" True False True 0] lt r ev
    by blast
  have 2: "sink (entryDebounceDone (envAt (Some [900, 0, 0, 100]) 10) afterIdle) = sink afterIdle \<and>
           CCGlobalState (entryDebounceDone (envAt (Some [900, 0, 0, 100]) 10) afterIdle) = Open"
    using entry_debounce_expiry [OF o c, of "envAt (Some [900, 0, 0, 100]) 10"] ge
    by blast
  from o c r k l1 l2 1 2 show ?thesis
    by (simp add: contained_def)
qed

section \<open>C7: expiry of the exit debounce timer\<close>

text \<open>
  Claim C7 as written fails.  (a) The slope is not taken against the load at containment
  entry.  In the run \<open>containmentRun\<close> (Idle, Bursty, entry timer expiry, Bursty to Sustain)
  the load sampled at containment entry is 10; no WLT change from Idle or Btl happens in
  containment, so \<^verbatim>\<open>latestSysCpuLoadCC_\<close> is still its initial 0.0 in \<open>burstyContained\<close>.  The
  exit timer runs out at a load of 10, the same as at entry: the code computes the slope
  10 - 0 = 10, leaves containment and sends EFFICIENT_POWER=false.  (b) With forwarding
  disabled (\<open>silentContained\<close>) the same expiry leaves containment and the sink stays empty.
\<close>

theorem exit_debounce_counterexample:
  "fst (getSysCpuLoad (envAt (Some [100, 0, 0, 900]) 10)
         (coordinatorRun
            [MonitorAlert (envAt None 0) ''WltMonitor'' 0 0,
             MonitorAlert (envAt None 5) ''WltMonitor'' 0 3]
            (SocDaemon_start True True ''wlt'' False True 0))) = 10 \<and>
   CCGlobalState burstyContained = CoreContainment \<and>
   ccExitDebounceActive burstyContained \<and> \<not> ccExitDebounceCancelled burstyContained \<and>
   latestSysCpuLoadCC burstyContained = 0 \<and>
   fst (getSysCpuLoad (envAt None 12) burstyContained) = 10 \<and>
   CCGlobalState (exitDebounceDone (envAt None 12) burstyContained) = Open \<and>
   sink (exitDebounceDone (envAt None 12) burstyContained) =
     [(''EFFICIENT_POWER'', True), (''EFFICIENT_POWER'', False)] \<and>
   CCGlobalState silentContained = CoreContainment \<and>
   \<not> ccExitDebounceCancelled silentContained \<and>
   fst (getSysCpuLoad (envAt None 12) silentContained) - latestSysCpuLoadCC silentContained = 10 \<and>
   CCGlobalState (exitDebounceDone (envAt None 12) silentContained) = Open \<and>
   sink (exitDebounceDone (envAt None 12) silentContained) = []"
  by (simp add: run_defs sysload_defs coordinator_defs timer_defs Let_def)

text \<open>
  C7, amended: when the wait of the exit timer ends with the cancelled flag clear and the
  state is CoreContainment, the coordinator takes one CPU-load sample and forms
  slope = sample - \<^verbatim>\<open>latestSysCpuLoadCC_\<close>.  That member is 0.0 at the start and is
  overwritten only by the WLT handler, with the latest value of the estimator, at a change
  from Idle or Btl to Sustain or Bursty seen in CoreContainment; it is not written at
  containment entry.  If slope > 5 the state becomes Open and EFFICIENT_POWER=0 is passed
  to the hint gate once (one \<open>sendHintIfAllowed 0\<close> on the sampled state; the cached value
  is 0 afterwards): the sink receives exactly the one call EFFICIENT_POWER=false when
  forwarding is enabled and the cached value is 1, which holds in every state that a run in
  "wlt" mode with forwarding enabled reaches from the start, and no call otherwise.  If the
  slope is not above 5, the exit timer is armed again with 5000 ms, the state stays
  CoreContainment, and neither the sink nor the cached value changes.
\<close>

theorem exit_debounce_expiry:
  assumes "CCGlobalState d = CoreContainment" and "\<not> ccExitDebounceCancelled d"
  shows "(fst (getSysCpuLoad e d) - latestSysCpuLoadCC d > 5 \<longrightarrow>
            exitDebounceDone e d =
              sendHintIfAllowed 0
                ((snd (getSysCpuLoad e d))\<lparr>ccExitDebounceActive := False,
                                             CCGlobalState := Open\<rparr>) \<and>
            CCGlobalState (exitDebounceDone e d) = Open \<and>
            \<not> efficientMode (exitDebounceDone e d) \<and>
            sink (exitDebounceDone e d) =
              sink d @ (if sendHint d \<and> efficientMode d
                        then [(''EFFICIENT_POWER'', False)] else []) \<and>
            (d = coordinatorRun evs (SocDaemon_start True sendGfx ''wlt'' gfx0 gpuInitOk t0) \<and>
             (\<forall>ev \<in> set evs. \<not> fromHfi ev) \<longrightarrow>
               sink (exitDebounceDone e d) = sink d @ [(''EFFICIENT_POWER'', False)])) \<and>
         (\<not> fst (getSysCpuLoad e d) - latestSysCpuLoadCC d > 5 \<longrightarrow>
            exitDebounceDone e d = startCCExitDebounceTimer 5000 (snd (getSysCpuLoad e d)) \<and>
            CCGlobalState (exitDebounceDone e d) = CoreContainment \<and>
            ccExitDebounceActive (exitDebounceDone e d) \<and>
            \<not> ccExitDebounceCancelled (exitDebounceDone e d) \<and>
            ccExitDebounceMs (exitDebounceDone e d) = 5000 \<and>
            efficientMode (exitDebounceDone e d) = efficientMode d \<and>
            sink (exitDebounceDone e d) = sink d) \<and>
         latestSysCpuLoadCC (coordinatorStep ev' d') =
           (if snapshotEdge ev' d' then getLatestSysCpuLoad d' else latestSysCpuLoadCC d') \<and>
         latestSysCpuLoadCC (SocDaemon_start sh sg mode gf gi ts) = 0"
proof -
  have body: "(fst (getSysCpuLoad e d) - latestSysCpuLoadCC d > 5 \<longrightarrow>
            exitDebounceDone e d =
              sendHintIfAllowed 0
                ((snd (getSysCpuLoad e d))\<lparr>ccExitDebounceActive := False,
                                             CCGlobalState := Open\<rparr>) \<and>
            CCGlobalState (exitDebounceDone e d) = Open \<and>
            \<not> efficientMode (exitDebounceDone e d) \<and>
            sink (exitDebounceDone e d) =
              sink d @ (if sendHint d \<and> efficientMode d
                        then [(''EFFICIENT_POWER'', False)] else [])) \<and>
         (\<not> fst (getSysCpuLoad e d) - latestSysCpuLoadCC d > 5 \<longrightarrow>
            exitDebounceDone e d = startCCExitDebounceTimer 5000 (snd (getSysCpuLoad e d)) \<and>
            CCGlobalState (exitDebounceDone e d) = CoreContainment \<and>
            ccExitDebounceActive (exitDebounceDone e d) \<and>
            \<not> ccExitDebounceCancelled (exitDebounceDone e d) \<and>
            ccExitDebounceMs (exitDebounceDone e d) = 5000 \<and>
            efficientMode (exitDebounceDone e d) = efficientMode d \<and>
            sink (exitDebounceDone e d) = sink d)"
    using assms
    by (simp add: exitDebounceDone_def Let_def getSysCpuLoad_exit_flag getSysCpuLoad_frame
          sendHintIfAllowed_sink sendHintIfAllowed_efficientMode sendHintIfAllowed_frame
          kSysloadSlopeThreshold_def startCCExitDebounceTimer_def)
  have reach: "sendHint d \<and> efficientMode d"
    if "d = coordinatorRun evs (SocDaemon_start True sendGfx ''wlt'' gfx0 gpuInitOk t0)"
      and "\<forall>ev \<in> set evs. \<not> fromHfi ev"
  proof -
    have "cachedInContainment d \<and> sendHint d"
      using coordinatorRun_cached [OF start_invariants(1) that(2), of True sendGfx gfx0 gpuInitOk t0]
        that(1) start_invariants(3) [of True sendGfx gfx0 gpuInitOk t0]
      by simp
    then show ?thesis
      using assms(1) by (simp add: cachedInContainment_def)
  qed
  have expiry: "(fst (getSysCpuLoad e d) - latestSysCpuLoadCC d > 5 \<longrightarrow>
            exitDebounceDone e d =
              sendHintIfAllowed 0
                ((snd (getSysCpuLoad e d))\<lparr>ccExitDebounceActive := False,
                                             CCGlobalState := Open\<rparr>) \<and>
            CCGlobalState (exitDebounceDone e d) = Open \<and>
            \<not> efficientMode (exitDebounceDone e d) \<and>
            sink (exitDebounceDone e d) =
              sink d @ (if sendHint d \<and> efficientMode d
                        then [(''EFFICIENT_POWER'', False)] else []) \<and>
            (d = coordinatorRun evs (SocDaemon_start True sendGfx ''wlt'' gfx0 gpuInitOk t0) \<and>
             (\<forall>ev \<in> set evs. \<not> fromHfi ev) \<longrightarrow>
               sink (exitDebounceDone e d) = sink d @ [(''EFFICIENT_POWER'', False)])) \<and>
         (\<not> fst (getSysCpuLoad e d) - latestSysCpuLoadCC d > 5 \<longrightarrow>
            exitDebounceDone e d = startCCExitDebounceTimer 5000 (snd (getSysCpuLoad e d)) \<and>
            CCGlobalState (exitDebounceDone e d) = CoreContainment \<and>
            ccExitDebounceActive (exitDebounceDone e d) \<and>
            \<not> ccExitDebounceCancelled (exitDebounceDone e d) \<and>
            ccExitDebounceMs (exitDebounceDone e d) = 5000 \<and>
            efficientMode (exitDebounceDone e d) = efficientMode d \<and>
            sink (exitDebounceDone e d) = sink d)"
    using body reach by auto
  have snap: "latestSysCpuLoadCC (coordinatorStep ev' d') =
           (if snapshotEdge ev' d' then getLatestSysCpuLoad d' else latestSysCpuLoadCC d')"
    by (rule coordinatorStep_snapshot)
  have init: "latestSysCpuLoadCC (SocDaemon_start sh sg mode gf gi ts) = 0"
    by (simp add: SocDaemon_start_def)
  show ?thesis
    using conjunct1 [OF expiry] conjunct2 [OF expiry] snap init
    by (intro conjI) assumption+
qed

text \<open>Witness for C7 (amended).  In \<open>containedSustain\<close> the WLT change from Idle to Sustain
  in containment has set the snapshot to the estimator's 10; a timer that runs out with
  the estimate still at 10 has slope 0 and is armed again.  In \<open>burstyContained\<close> the
  snapshot is the initial 0.0, the slope is 10, and the coordinator leaves containment
  with EFFICIENT_POWER=false sent once.\<close>

theorem exit_debounce_expiry_witness:
  "CCGlobalState containedSustain = CoreContainment \<and>
   \<not> ccExitDebounceCancelled containedSustain \<and>
   snapshotEdge (MonitorAlert (envAt (Some [100, 0, 0, 900]) 11) ''WltMonitor'' 0 2) contained \<and>
   latestSysCpuLoadCC containedSustain = 10 \<and>
   fst (getSysCpuLoad (envAt None 12) containedSustain) - latestSysCpuLoadCC containedSustain = 0 \<and>
   CCGlobalState (exitDebounceDone (envAt None 12) containedSustain) = CoreContainment \<and>
   ccExitDebounceActive (exitDebounceDone (envAt None 12) containedSustain) \<and>
   ccExitDebounceMs (exitDebounceDone (envAt None 12) containedSustain) = 5000 \<and>
   sink (exitDebounceDone (envAt None 12) containedSustain) = [(''EFFICIENT_POWER'', True)] \<and>
   CCGlobalState burstyContained = CoreContainment \<and>
   \<not> ccExitDebounceCancelled burstyContained \<and>
   fst (getSysCpuLoad (envAt None 12) burstyContained) - latestSysCpuLoadCC burstyContained = 10 \<and>
   CCGlobalState (exitDebounceDone (envAt None 12) burstyContained) = Open \<and>
   sink (exitDebounceDone (envAt None 12) burstyContained) =
     [(''EFFICIENT_POWER'', True), (''EFFICIENT_POWER'', False)]"
proof -
  have c1: "CCGlobalState containedSustain = CoreContainment"
    by (simp add: run_defs sysload_defs coordinator_defs timer_defs Let_def)
  have n1: "\<not> ccExitDebounceCancelled containedSustain"
    by (simp add: run_defs sysload_defs coordinator_defs timer_defs Let_def)
  have s1: "fst (getSysCpuLoad (envAt None 12) containedSustain)
              - latestSysCpuLoadCC containedSustain = 0"
    by (simp add: run_defs sysload_defs coordinator_defs timer_defs Let_def)
  have k1: "sink containedSustain = [(''EFFICIENT_POWER'', True)]"
    by (simp add: run_defs sysload_defs coordinator_defs timer_defs Let_def)
  have e1: "snapshotEdge (MonitorAlert (envAt (Some [100, 0, 0, 900]) 11) ''WltMonitor'' 0 2)
              contained"
    by (simp add: run_defs sysload_defs coordinator_defs timer_defs Let_def)
  have l1: "getLatestSysCpuLoad contained = 10"
    by (simp add: run_defs sysload_defs coordinator_defs timer_defs Let_def)
  have c2: "CCGlobalState burstyContained = CoreContainment"
    by (simp add: run_defs sysload_defs coordinator_defs timer_defs Let_def)
  have n2: "\<not> ccExitDebounceCancelled burstyContained"
    by (simp add: run_defs sysload_defs coordinator_defs timer_defs Let_def)
  have s2: "fst (getSysCpuLoad (envAt None 12) burstyContained)
              - latestSysCpuLoadCC burstyContained = 10"
    by (simp add: run_defs sysload_defs coordinator_defs timer_defs Let_def)
  have k2: "sink burstyContained = [(''EFFICIENT_POWER'', True)]"
    by (simp add: run_defs sysload_defs coordinator_defs timer_defs Let_def)
  have le1: "\<not> fst (getSysCpuLoad (envAt None 12) containedSustain)
                  - latestSysCpuLoadCC containedSustain > 5"
    using s1 by simp
  have gt2: "fst (getSysCpuLoad (envAt None 12) burstyContained)
               - latestSysCpuLoadCC burstyContained > 5"
    using s2 by simp
  have ev2: "\<forall>ev \<in> set containmentRun. \<not> fromHfi ev"
    by (simp add: containmentRun_def)
  have r2: "burstyContained =
      coordinatorRun containmentRun (SocDaemon_start True True ''wlt'' False True 0)"
    by (simp add: burstyContained_def)
  have r3: "containedSustain =
      coordinatorStep (MonitorAlert (envAt (Some [100, 0, 0, 900]) 11) ''WltMonitor'' 0 2)
        contained"
    by (simp add: containedSustain_def)
  have 1: "CCGlobalState (exitDebounceDone (envAt None 12) containedSustain) = CoreContainment \<and>
     ccExitDebounceActive (exitDebounceDone (envAt None 12) containedSustain) \<and>
     ccExitDebounceMs (exitDebounceDone (envAt None 12) containedSustain) = 5000 \<and>
     sink (exitDebounceDone (envAt None 12) containedSustain) = sink containedSustain"
    using exit_debounce_expiry [OF c1 n1, where e = "envAt None 12"] le1
    by blast
  have 2: "CCGlobalState (exitDebounceDone (envAt None 12) burstyContained) = Open \<and>
     sink (exitDebounceDone (envAt None 12) burstyContained) =
       sink burstyContained @ [(''EFFICIENT_POWER'', False)]"
    using exit_debounce_expiry [OF c2 n2, where e = "envAt None 12" and evs = containmentRun
        and sendGfx = True and ?gfx0.0 = False and gpuInitOk = True and ?t0.0 = 0] gt2 ev2 r2
    by blast
  have snap: "latestSysCpuLoadCC
        (coordinatorStep (MonitorAlert (envAt (Some [100, 0, 0, 900]) 11) ''WltMonitor'' 0 2)
           contained) =
      (if snapshotEdge (MonitorAlert (envAt (Some [100, 0, 0, 900]) 11) ''WltMonitor'' 0 2) contained
       then getLatestSysCpuLoad contained else latestSysCpuLoadCC contained)"
    using exit_debounce_expiry [OF c1 n1,
        where ?ev' = "MonitorAlert (envAt (Some [100, 0, 0, 900]) 11) ''WltMonitor'' 0 2"
          and ?d' = contained]
    by blast
  have 3: "latestSysCpuLoadCC containedSustain = 10"
    using snap e1 l1 r3 by simp
  from c1 n1 s1 k1 e1 c2 n2 s2 k2 1 2 3 show ?thesis
    by simp
qed

section \<open>C8: the stateless mapping of "swlt" mode\<close>

text \<open>
  Claim C8 as written fails in its second half.  Start the daemon with
  \<^verbatim>\<open>--socHint swlt\<close> and forwarding enabled, and feed the WLT integers 0x02, 0x12, 0x02
  (the monitor's first callback has old value 0).  The first request, EFFICIENT_POWER=0,
  equals the initial cached value and is not sent; the sink receives true, then false: two
  calls, not three.
\<close>

theorem swlt_sequence_counterexample:
  "sink (handleChangeAlert (envAt None 0) ''WltMonitor'' 0 2
          (SocDaemon_start True True ''swlt'' False True 0)) = [] \<and>
   sink (handleChangeAlert (envAt None 2) ''WltMonitor'' 18 2
          (handleChangeAlert (envAt None 1) ''WltMonitor'' 2 18
            (handleChangeAlert (envAt None 0) ''WltMonitor'' 0 2
              (SocDaemon_start True True ''swlt'' False True 0)))) =
     [(''EFFICIENT_POWER'', True), (''EFFICIENT_POWER'', False)]"
  by (simp add: coordinator_defs sysload_defs envAt_def Let_def)

text \<open>
  C8, amended: in soc_hint="swlt" mode each WLT callback maps statelessly: bit 4 of the new
  integer clear requests EFFICIENT_POWER=0 and bit 4 set requests EFFICIENT_POWER=1, each
  through the hint gate; for the WLT integer sequence 0x02, 0x12, 0x02 from the daemon's
  initial state with forwarding enabled, the first request (false) equals the initial
  cached value and is suppressed, and the sink receives EFFICIENT_POWER=true and then
  EFFICIENT_POWER=false, each once.
\<close>

theorem swlt_mapping:
  "(socHint d = ''swlt'' \<longrightarrow>
      handleChangeAlert e ''WltMonitor'' oldValue newValue d =
        sendHintIfAllowed (if bit newValue 4 then 1 else 0) d) \<and>
   sink (handleChangeAlert e1 ''WltMonitor'' o1 2
          (SocDaemon_start True sendGfx ''swlt'' gfx0 gpuInitOk t0)) = [] \<and>
   sink (handleChangeAlert e2 ''WltMonitor'' o2 18
          (handleChangeAlert e1 ''WltMonitor'' o1 2
            (SocDaemon_start True sendGfx ''swlt'' gfx0 gpuInitOk t0))) =
     [(''EFFICIENT_POWER'', True)] \<and>
   sink (handleChangeAlert e3 ''WltMonitor'' o3 2
          (handleChangeAlert e2 ''WltMonitor'' o2 18
            (handleChangeAlert e1 ''WltMonitor'' o1 2
              (SocDaemon_start True sendGfx ''swlt'' gfx0 gpuInitOk t0)))) =
     [(''EFFICIENT_POWER'', True), (''EFFICIENT_POWER'', False)]"
proof -
  have m: "socHint d = ''swlt'' \<longrightarrow>
      handleChangeAlert e ''WltMonitor'' oldValue newValue d =
        sendHintIfAllowed (if bit newValue 4 then 1 else 0) d"
    by (simp add: handleChangeAlert_def Let_def bit_4_test_numeral)
  have s: "sink (handleChangeAlert e1 ''WltMonitor'' o1 2
          (SocDaemon_start True sendGfx ''swlt'' gfx0 gpuInitOk t0)) = [] \<and>
   sink (handleChangeAlert e2 ''WltMonitor'' o2 18
          (handleChangeAlert e1 ''WltMonitor'' o1 2
            (SocDaemon_start True sendGfx ''swlt'' gfx0 gpuInitOk t0))) =
     [(''EFFICIENT_POWER'', True)] \<and>
   sink (handleChangeAlert e3 ''WltMonitor'' o3 2
          (handleChangeAlert e2 ''WltMonitor'' o2 18
            (handleChangeAlert e1 ''WltMonitor'' o1 2
              (SocDaemon_start True sendGfx ''swlt'' gfx0 gpuInitOk t0)))) =
     [(''EFFICIENT_POWER'', True), (''EFFICIENT_POWER'', False)]"
    by (simp add: coordinator_defs sysload_defs Let_def)
  from m s show ?thesis by blast
qed

text \<open>Witness for C8 (amended): the mapping at the start state, for 0x12 and for 0x02.\<close>

theorem swlt_mapping_witness:
  "socHint (SocDaemon_start True True ''swlt'' False True 0) = ''swlt'' \<and>
   bit (18 :: c_int) 4 \<and> \<not> bit (2 :: c_int) 4 \<and>
   handleChangeAlert (envAt None 0) ''WltMonitor'' 2 18
       (SocDaemon_start True True ''swlt'' False True 0) =
     sendHintIfAllowed 1 (SocDaemon_start True True ''swlt'' False True 0) \<and>
   handleChangeAlert (envAt None 0) ''WltMonitor'' 0 2
       (SocDaemon_start True True ''swlt'' False True 0) =
     sendHintIfAllowed 0 (SocDaemon_start True True ''swlt'' False True 0)"
proof -
  have s: "socHint (SocDaemon_start True True ''swlt'' False True 0) = ''swlt''"
    by (simp add: SocDaemon_start_def)
  have b: "bit (18 :: c_int) 4 \<and> \<not> bit (2 :: c_int) 4"
    by (simp add: bit_iff_odd)
  show ?thesis
    using swlt_mapping [of "SocDaemon_start True True ''swlt'' False True 0" "envAt None 0" 2 18]
          swlt_mapping [of "SocDaemon_start True True ''swlt'' False True 0" "envAt None 0" 0 2]
          s b
    by simp
qed

section \<open>C9: sysfs values that fail integer parsing\<close>

lemma strtol_abc: "strtol ''abc'' = (0, 0)"
  by (simp add: strtol_defs Let_def)

lemma strtol_2: "strtol ''2'' = (2, 1)"
  by (simp add: strtol_defs Let_def)

lemma strtol_500: "strtol ''500'' = (500, 3)"
  by (simp add: strtol_defs Let_def)

lemma strtol_400: "strtol ''400'' = (400, 3)"
  by (simp add: strtol_defs Let_def)

text \<open>
  Claim C9 as written fails.  The WLT monitor holds the value "2" and reads "abc": the
  conversion fails and the error is logged, yet \<^verbatim>\<open>onValueChanged(2, 0)\<close> is called and
  "abc" becomes the previous value; in "wlt" mode the coordinator takes the 0 for Idle and
  arms the entry timer.  The GPU monitor, holding "500" and reading "abc", calls
  \<^verbatim>\<open>onValueChanged(0, 1)\<close>: high GPU load.
\<close>

theorem parse_failure_counterexample:
  "conversionFailed ''abc'' \<and>
   WltMonitor_pass (Some (''abc'' @ [CHR 0x0A])) \<lparr>current_value = ''2'', previous_value = ''2''\<rparr> =
     (\<lparr>current_value = ''abc'', previous_value = ''abc''\<rparr>,
      [FailedToConvertCurrent ''abc''], Some (2, 0)) \<and>
   \<not> ccEntryDebounceActive coldStart \<and>
   ccEntryDebounceActive (handleChangeAlert (envAt None 0) ''WltMonitor'' 2 0 coldStart) \<and>
   GpuRc6Monitor_pass (Some (''abc'' @ [CHR 0x0A])) \<lparr>current_value = ''500'', previous_value = ''500''\<rparr> =
     (\<lparr>current_value = ''abc'', previous_value = ''abc''\<rparr>,
      [FailedToConvertCurrent ''abc''], Some (0, 1))"
proof -
  have f: "conversionFailed ''abc''"
    by (simp add: conversionFailed_def strtol_abc)
  have w: "WltMonitor_pass (Some (''abc'' @ [CHR 0x0A])) \<lparr>current_value = ''2'', previous_value = ''2''\<rparr> =
     (\<lparr>current_value = ''abc'', previous_value = ''abc''\<rparr>,
      [FailedToConvertCurrent ''abc''], Some (2, 0))"
    by (simp add: pass_defs conversionFailed_def toInt_def strtol_abc strtol_2 charAt_def Let_def)
  have c: "\<not> ccEntryDebounceActive coldStart \<and>
     ccEntryDebounceActive (handleChangeAlert (envAt None 0) ''WltMonitor'' 2 0 coldStart)"
    by (simp add: run_defs coordinator_defs timer_defs Let_def)
  have g: "GpuRc6Monitor_pass (Some (''abc'' @ [CHR 0x0A])) \<lparr>current_value = ''500'', previous_value = ''500''\<rparr> =
     (\<lparr>current_value = ''abc'', previous_value = ''abc''\<rparr>,
      [FailedToConvertCurrent ''abc''], Some (0, 1))"
    by (simp add: pass_defs conversionFailed_def toInt_def strtol_abc strtol_500 charAt_def
          idlePercent_def kGpuHighLoadPercent_def Let_def)
  from f w c g show ?thesis by blast
qed

text \<open>
  C9, amended: for every sysfs value read by the WLT or the GPU monitor that differs from
  the previous value and fails integer parsing, the parse error is logged and the sample
  is not discarded: the change callback is still dispatched (for the WLT monitor with the
  results of \<^verbatim>\<open>strtol\<close> on the previous and the new value), and the monitor records the
  new value as its previous value.
\<close>

theorem parse_failure_still_dispatched:
  "(current_value (fst (WltMonitor_pass rd l)) \<noteq> previous_value l \<and>
    conversionFailed (current_value (fst (WltMonitor_pass rd l))) \<longrightarrow>
      FailedToConvertCurrent (current_value (fst (WltMonitor_pass rd l)))
        \<in> set (fst (snd (WltMonitor_pass rd l))) \<and>
      snd (snd (WltMonitor_pass rd l)) =
        Some (toInt (previous_value l), toInt (current_value (fst (WltMonitor_pass rd l)))) \<and>
      previous_value (fst (WltMonitor_pass rd l)) = current_value (fst (WltMonitor_pass rd l))) \<and>
   (current_value (fst (GpuRc6Monitor_pass rd l)) \<noteq> previous_value l \<and>
    conversionFailed (current_value (fst (GpuRc6Monitor_pass rd l))) \<longrightarrow>
      FailedToConvertCurrent (current_value (fst (GpuRc6Monitor_pass rd l)))
        \<in> set (fst (snd (GpuRc6Monitor_pass rd l))) \<and>
      snd (snd (GpuRc6Monitor_pass rd l)) \<noteq> None \<and>
      previous_value (fst (GpuRc6Monitor_pass rd l)) = current_value (fst (GpuRc6Monitor_pass rd l)))"
proof -
  obtain c1 g1 where r1: "readValue 16 rd (current_value l) = (c1, g1)"
    by (cases "readValue 16 rd (current_value l)")
  obtain c2 g2 where r2: "readValue 32 rd (current_value l) = (c2, g2)"
    by (cases "readValue 32 rd (current_value l)")
  show ?thesis
    using r1 r2
    by (simp add: WltMonitor_pass_def GpuRc6Monitor_pass_def Let_def conversionLog_def)
qed

text \<open>Witness for C9 (amended): both monitors reading "abc".\<close>

theorem parse_failure_still_dispatched_witness:
  "current_value (fst (WltMonitor_pass (Some (''abc'' @ [CHR 0x0A]))
      \<lparr>current_value = ''2'', previous_value = ''2''\<rparr>)) = ''abc'' \<and>
   ''abc'' \<noteq> ''2'' \<and> conversionFailed ''abc'' \<and>
   snd (snd (WltMonitor_pass (Some (''abc'' @ [CHR 0x0A]))
      \<lparr>current_value = ''2'', previous_value = ''2''\<rparr>)) = Some (toInt ''2'', toInt ''abc'') \<and>
   current_value (fst (GpuRc6Monitor_pass (Some (''abc'' @ [CHR 0x0A]))
      \<lparr>current_value = ''2'', previous_value = ''2''\<rparr>)) = ''abc'' \<and>
   snd (snd (GpuRc6Monitor_pass (Some (''abc'' @ [CHR 0x0A]))
      \<lparr>current_value = ''2'', previous_value = ''2''\<rparr>)) \<noteq> None"
proof -
  have f: "conversionFailed ''abc''"
    by (simp add: conversionFailed_def strtol_abc)
  have c: "current_value (fst (WltMonitor_pass (Some (''abc'' @ [CHR 0x0A]))
      \<lparr>current_value = ''2'', previous_value = ''2''\<rparr>)) = ''abc''"
    by (simp add: pass_defs Let_def)
  have c': "current_value (fst (GpuRc6Monitor_pass (Some (''abc'' @ [CHR 0x0A]))
      \<lparr>current_value = ''2'', previous_value = ''2''\<rparr>)) = ''abc''"
    by (simp add: pass_defs Let_def)
  show ?thesis
    using parse_failure_still_dispatched [of "Some (''abc'' @ [CHR 0x0A])"
        "\<lparr>current_value = ''2'', previous_value = ''2''\<rparr>"] f c c'
    by simp
qed

section \<open>C10: counter resets in the GPU idle-residency monitor\<close>

lemma idlePercent_reset:
  assumes "sint curr_val \<le> sint prev_val"
  shows "idlePercent prev_val curr_val = 0"
proof (cases "sint curr_val = sint prev_val")
  case True
  then have "curr_val = prev_val"
    by (simp add: word_eq_iff_signed [where ?'a = int])
  then show ?thesis by (simp add: idlePercent_def)
next
  case False
  with assms have "\<not> sint prev_val \<le> sint curr_val" by simp
  then show ?thesis by (simp add: idlePercent_def)
qed

lemma idlePercent_range: "0 \<le> idlePercent p c \<and> idlePercent p c \<le> 100"
proof -
  have "0 \<le> real (unat w) * 100 / 1000" for w :: u64
    by (simp del: of_nat_unat)
  then show ?thesis
    unfolding idlePercent_def Let_def by (simp del: of_nat_unat)
qed

lemma sint_floor_idlePercent:
  "sint (word_of_int \<lfloor>idlePercent p c\<rfloor> :: c_int) = \<lfloor>idlePercent p c\<rfloor>"
proof -
  have "0 \<le> \<lfloor>idlePercent p c\<rfloor>" "\<lfloor>idlePercent p c\<rfloor> \<le> 100"
    using idlePercent_range [of p c] by (simp_all add: floor_le_iff le_floor_iff)
  then show ?thesis
    by (simp add: signed_of_int signed_take_bit_int_eq_self)
qed

text \<open>
  What holds of one pass of the GPU monitor, in terms of the readings as the code holds
  them (\<^verbatim>\<open>int prev_val\<close>, \<^verbatim>\<open>int curr_val\<close>, the narrowed results of \<^verbatim>\<open>strtol\<close>): when the
  new string differs from the previous one and the narrowed new value is not greater than
  the narrowed previous one, the idle percentage is 0 and \<^verbatim>\<open>onValueChanged(0, 1)\<close> is
  called; and in every pass that calls \<^verbatim>\<open>onValueChanged\<close>, the idle percentage passed lies
  between 0 and 100.
\<close>

lemma gpu_pass_narrowed_reset_and_clamp:
  "(current_value (fst (GpuRc6Monitor_pass rd l)) \<noteq> previous_value l \<and>
    sint (toInt (current_value (fst (GpuRc6Monitor_pass rd l)))) \<le> sint (toInt (previous_value l)) \<longrightarrow>
      idlePercent (toInt (previous_value l))
        (toInt (current_value (fst (GpuRc6Monitor_pass rd l)))) = 0 \<and>
      snd (snd (GpuRc6Monitor_pass rd l)) = Some (0, 1)) \<and>
   (\<forall>p m. snd (snd (GpuRc6Monitor_pass rd l)) = Some (p, m) \<longrightarrow> 0 \<le> sint p \<and> sint p \<le> 100)"
proof -
  obtain cur log0 where r: "readValue 32 rd (current_value l) = (cur, log0)"
    by (cases "readValue 32 rd (current_value l)")
  have c: "current_value (fst (GpuRc6Monitor_pass rd l)) = cur"
    using r by (simp add: GpuRc6Monitor_pass_def Let_def)
  have 1: "cur \<noteq> previous_value l \<and> sint (toInt cur) \<le> sint (toInt (previous_value l)) \<longrightarrow>
      idlePercent (toInt (previous_value l)) (toInt cur) = 0 \<and>
      snd (snd (GpuRc6Monitor_pass rd l)) = Some (0, 1)"
    using r by (simp add: GpuRc6Monitor_pass_def Let_def idlePercent_reset kGpuHighLoadPercent_def)
  have 2: "\<forall>p m. snd (snd (GpuRc6Monitor_pass rd l)) = Some (p, m) \<longrightarrow> 0 \<le> sint p \<and> sint p \<le> 100"
  proof (intro allI impI)
    fix p m
    assume "snd (snd (GpuRc6Monitor_pass rd l)) = Some (p, m)"
    then have "p = word_of_int \<lfloor>idlePercent (toInt (previous_value l)) (toInt cur)\<rfloor>"
      using r by (simp add: GpuRc6Monitor_pass_def Let_def split: if_splits)
    then show "0 \<le> sint p \<and> sint p \<le> 100"
      using idlePercent_range [of "toInt (previous_value l)" "toInt cur"]
      by (simp add: sint_floor_idlePercent floor_le_iff le_floor_iff)
  qed
  from 1 2 show ?thesis unfolding c by blast
qed

text \<open>The narrowing keeps a counter value that fits a 32-bit \<^verbatim>\<open>int\<close>, so for such readings
  the pass does what claim C10 says of the counter values themselves.\<close>

lemma sint_toInt_in_range:
  assumes "- (2 ^ 31) \<le> fst (strtol s)" and "fst (strtol s) < 2 ^ 31"
  shows "sint (toInt s) = fst (strtol s)"
  using assms by (simp add: toInt_def signed_of_int signed_take_bit_int_eq_self)

lemma gpu_pass_reset_in_int_range:
  assumes "current_value (fst (GpuRc6Monitor_pass rd l)) \<noteq> previous_value l"
    and "- (2 ^ 31) \<le> fst (strtol (current_value (fst (GpuRc6Monitor_pass rd l))))"
    and "fst (strtol (current_value (fst (GpuRc6Monitor_pass rd l))))
           \<le> fst (strtol (previous_value l))"
    and "fst (strtol (previous_value l)) < 2 ^ 31"
  shows "snd (snd (GpuRc6Monitor_pass rd l)) = Some (0, 1)"
proof -
  have "sint (toInt (current_value (fst (GpuRc6Monitor_pass rd l)))) =
          fst (strtol (current_value (fst (GpuRc6Monitor_pass rd l))))"
    using assms by (intro sint_toInt_in_range) simp_all
  moreover have "sint (toInt (previous_value l)) = fst (strtol (previous_value l))"
    using assms by (intro sint_toInt_in_range) simp_all
  ultimately show ?thesis
    using gpu_pass_narrowed_reset_and_clamp [of rd l] assms by simp
qed

lemma strtol_4294967296: "strtol ''4294967296'' = (4294967296, 10)"
  by (simp add: strtol_defs Let_def)

lemma strtol_1000: "strtol ''1000'' = (1000, 4)"
  by (simp add: strtol_defs Let_def)

text \<open>
  Claim C10 at the successive readings 4294967296 and 1000 of
  \<^verbatim>\<open>idle_residency_ms\<close>: both convert without error and the new counter value is smaller
  than the previous one, so the claim asks for idle delta 0, idle percentage 0 and a
  callback with gfx_mode 1.  The code narrows the previous reading to \<^verbatim>\<open>int\<close>, which
  makes it 0, takes the delta 1000 and the idle percentage 100, and calls
  \<^verbatim>\<open>onValueChanged(100, 0)\<close>: gfx_mode 0.  (\<^verbatim>\<open>GpuLoadMonitor::getGpuLoad\<close> reads the same
  counter as \<^verbatim>\<open>unsigned long long\<close>.)
\<close>

theorem gpu_idle_narrowing:
  "fst (strtol ''1000'') < fst (strtol ''4294967296'') \<and>
   toInt ''4294967296'' = 0 \<and>
   idlePercent (toInt ''4294967296'') (toInt ''1000'') = 100 \<and>
   GpuRc6Monitor_pass (Some (''1000'' @ [CHR 0x0A]))
       \<lparr>current_value = ''4294967296'', previous_value = ''4294967296''\<rparr> =
     (\<lparr>current_value = ''1000'', previous_value = ''1000''\<rparr>, [], Some (100, 0))"
  by (simp add: pass_defs conversionFailed_def toInt_def strtol_4294967296 strtol_1000 charAt_def
        idlePercent_def kGpuHighLoadPercent_def Let_def)

end
